theory Spec2Isabelle
  imports Complex_Main "HOL-Library.Stream"
begin

section \<open>The synthetic VBT dataset generator\<close>

text \<open>
  A shallow embedding of \<^verbatim>\<open>AcademicVBTDataCollector.generate_sample_academic_dataset\<close>
  (\<^verbatim>\<open>src/ml_training/real_data_collection_protocol.py\<close>).

  Conventions of the embedding.
  \<^item> Python floats are modelled as \<open>real\<close>: the decimal literals of the source are the
    exact rationals they denote and rounding is not modelled.
  \<^item> Python ints are \<open>int\<close>.
  \<^item> The process-wide generator of \<^verbatim>\<open>numpy.random\<close> is a stream of standard variates, one
    per call, consumed in call order: a call of \<^verbatim>\<open>normal(loc, scale)\<close> returns
    \<open>loc + scale * z\<close> for the next variate \<open>z\<close>, \<^verbatim>\<open>exponential(scale)\<close> returns
    \<open>scale * e\<close>, \<^verbatim>\<open>uniform(low, high)\<close> returns \<open>low + (high - low) * u\<close>, and
    \<^verbatim>\<open>randint(low, high)\<close> returns \<open>low + \<lfloor>u * (high - low)\<rfloor>\<close>. The library guarantees
    \<open>0 \<le> e\<close> and \<open>0 \<le> u < 1\<close>; theorems that depend on it say so. Seeding is a function
    from the seed to the stream it starts, a parameter of the model.
  \<^item> The wall clock is a stream of readings of \<^verbatim>\<open>datetime.now()\<close>, in microseconds. A
    \<^verbatim>\<open>datetime\<close> is kept as its microsecond count; \<^verbatim>\<open>isoformat\<close> renders it injectively and
    is not modelled.
  \<^item> Exceptions are values: the result of every step is \<open>error + state\<close>.
  \<^item> Local variables are fields of the state. \<^verbatim>\<open>exercises\<close> and \<^verbatim>\<open>load_percentages\<close> are
    assigned only inside the participant loop and read again after it, so their fields are
    options, \<open>None\<close> while the variable is unbound; reading an unbound one raises
    \<^verbatim>\<open>UnboundLocalError\<close>.
  \<^item> Creating the directory, writing the CSV and JSON files and the console output are not
    modelled. Of the metadata document the computed part, \<^verbatim>\<open>dataset_info\<close>, is modelled (its
    constant name and version left out); the protocol and the constant statistics are not.
    The function returns the two tables and the metadata: the fields \<open>participants_data\<close>,
    \<open>vbt_measurements\<close> and \<open>metadata\<close> of the final state.
\<close>

subsection \<open>Data\<close>

datatype error = ZeroDivisionError | KeyError string | UnboundLocalError string | ValueError

record participant =
  participant_id :: string
  age :: real
  body_mass :: real
  height :: real
  training_experience :: real
  squat_1rm :: real
  bench_1rm :: real
  deadlift_1rm :: real

record measurement =
  participant_id :: string
  session_date :: int
  exercise :: string
  load_kg :: real
  load_percent_1rm :: int
  rep_number :: int
  mean_concentric_velocity :: real
  peak_velocity :: real
  duration_concentric :: real
  range_of_motion :: real
  peak_force :: real
  mean_power :: real
  rate_of_force_development :: real
  technique_rating :: real
  data_quality :: real
  measurement_device :: string
  sampling_rate :: int
  calibration_status :: string

text \<open>The entry \<^verbatim>\<open>dataset_info\<close> of the metadata (lines 212 to 220).\<close>

record dataset_info =
  info_created :: int
  info_participants :: int
  info_measurements :: int
  info_exercises :: "string list"
  info_load_range :: string

text \<open>
  The local variables of the function that outlive a loop body, together with the two
  external resources it reads: the generator of \<^verbatim>\<open>numpy.random\<close> and the clock. The loop
  variable \<^verbatim>\<open>exercise\<close> is written \<open>ex\<close> below, the field of the measurement keeping the
  name; the constants \<open>exercises\<close> and \<open>load_percentages\<close> below are the list literals of
  lines 130 and 131, and the state fields \<open>local_exercises\<close> and \<open>local_load_percentages\<close>
  the variables they are assigned to.
\<close>

record state =
  participants_data :: "participant list"
  vbt_measurements :: "measurement list"
  local_exercises :: "string list option"
  local_load_percentages :: "int list option"
  metadata :: "dataset_info option"
  rng :: "real stream"
  clock :: "int stream"

subsection \<open>Library calls\<close>

definition normal :: "real \<Rightarrow> real \<Rightarrow> state \<Rightarrow> real \<times> state" where
  "normal loc scale s = (loc + scale * shd (rng s), s\<lparr>rng := stl (rng s)\<rparr>)"

definition exponential :: "real \<Rightarrow> state \<Rightarrow> real \<times> state" where
  "exponential scale s = (scale * shd (rng s), s\<lparr>rng := stl (rng s)\<rparr>)"

definition uniform :: "real \<Rightarrow> real \<Rightarrow> state \<Rightarrow> real \<times> state" where
  "uniform low high s = (low + (high - low) * shd (rng s), s\<lparr>rng := stl (rng s)\<rparr>)"

definition randint :: "int \<Rightarrow> int \<Rightarrow> state \<Rightarrow> int \<times> state" where
  "randint low high s =
     (low + \<lfloor>shd (rng s) * real_of_int (high - low)\<rfloor>, s\<lparr>rng := stl (rng s)\<rparr>)"

definition now :: "state \<Rightarrow> int \<times> state" where
  "now s = (shd (clock s), s\<lparr>clock := stl (clock s)\<rparr>)"

definition timedelta_days :: "int \<Rightarrow> int" where
  "timedelta_days d = d * 86400000000"

definition clip :: "real \<Rightarrow> real \<Rightarrow> real \<Rightarrow> real" where
  "clip x a_min a_max = min a_max (max x a_min)"

text \<open>\<^verbatim>\<open>range(a, b)\<close>.\<close>

definition range_py :: "int \<Rightarrow> int \<Rightarrow> int list" where
  "range_py a b = [a..b - 1]"

text \<open>
  The format specification \<^verbatim>\<open>03d\<close>: the decimal digits, zero-padded on the left to
  width three, the sign (which counts for the width) first.
\<close>

definition digit_char :: "nat \<Rightarrow> char" where
  "digit_char d = char_of (48 + d)"

fun decimal :: "nat \<Rightarrow> string" where
  "decimal n = (if n < 10 then [digit_char n] else decimal (n div 10) @ [digit_char (n mod 10)])"

definition zero_pad :: "nat \<Rightarrow> string \<Rightarrow> string" where
  "zero_pad w ds = replicate (w - length ds) (CHR ''0'') @ ds"

definition format_03d :: "int \<Rightarrow> string" where
  "format_03d i =
     (if i < 0 then CHR ''-'' # zero_pad 2 (decimal (nat (- i))) else zero_pad 3 (decimal (nat i)))"

text \<open>The plain rendering of an int in an f-string, as in \<^verbatim>\<open>f"{min(load_percentages)}"\<close>.\<close>

definition format_d :: "int \<Rightarrow> string" where
  "format_d i = (if i < 0 then CHR ''-'' # decimal (nat (- i)) else decimal (nat i))"

text \<open>
  The subscription \<^verbatim>\<open>participant_data[key]\<close>, for the keys whose value is a number.
\<close>

definition getitem :: "participant \<Rightarrow> string \<Rightarrow> error + real" where
  "getitem p k =
     (if k = ''age'' then Inr (age p)
      else if k = ''body_mass'' then Inr (body_mass p)
      else if k = ''height'' then Inr (height p)
      else if k = ''training_experience'' then Inr (training_experience p)
      else if k = ''squat_1rm'' then Inr (squat_1rm p)
      else if k = ''bench_1rm'' then Inr (bench_1rm p)
      else if k = ''deadlift_1rm'' then Inr (deadlift_1rm p)
      else Inl (KeyError k))"

subsection \<open>The loops\<close>

text \<open>
  \<^verbatim>\<open>for x in xs: body\<close>, where the body updates the state or raises.
\<close>

fun for_each :: "'a list \<Rightarrow> ('a \<Rightarrow> 's \<Rightarrow> error + 's) \<Rightarrow> 's \<Rightarrow> error + 's" where
  "for_each [] body s = Inr s"
| "for_each (x # xs) body s =
     (case body x s of Inl e \<Rightarrow> Inl e | Inr s' \<Rightarrow> for_each xs body s')"

definition exercises :: "string list" where
  "exercises = [''squat'', ''bench'', ''deadlift'']"

definition load_percentages :: "int list" where
  "load_percentages = [50, 70, 85, 90, 95]"

text \<open>
  The exercises that \<^verbatim>\<open>create_data_collection_protocol\<close> lists (line 53); the metadata
  document embeds that protocol next to \<^verbatim>\<open>dataset_info\<close>.
\<close>

definition protocol_exercises :: "string list" where
  "protocol_exercises = [''squat'', ''bench_press'', ''deadlift'']"

text \<open>The body of \<^verbatim>\<open>for rep in range(1, 4)\<close> (lines 154 to 201).\<close>

definition rep_body ::
  "participant \<Rightarrow> string \<Rightarrow> real \<Rightarrow> int \<Rightarrow> real \<Rightarrow> real \<Rightarrow> int \<Rightarrow> state \<Rightarrow> error + state" where
  "rep_body participant_data ex absolute_load load_pct base_velocity individual_factor rep s =
     (let fatigue_factor = 1.0 - real_of_int (rep - 1) * 0.03;
          mean_velocity = base_velocity * individual_factor * fatigue_factor;
          mean_velocity = max 0.1 mean_velocity;
          (pk, s) = normal 1.25 0.05 s;
          peak_velocity = mean_velocity * pk;
          (duration, s) = normal 1.2 0.2 s;
          (rom, s) = normal 0.65 0.08 s;
          estimated_force = absolute_load * 9.81;
          power = estimated_force * mean_velocity
      in if duration * 0.3 = 0 then Inl ZeroDivisionError
         else
           let rfd = estimated_force / (duration * 0.3);
               base_technique = 8.5 - real_of_int (load_pct - 50) * 0.02;
               (technique_score, s) = normal base_technique 0.8 s;
               technique_score = clip technique_score 1 10;
               (t, s) = now s;
               (days, s) = randint 0 30 s;
               session_date = t - timedelta_days days;
               (quality, s) = uniform 0.95 1.0 s;
               measurement = \<lparr>
                 participant_id = participant.participant_id participant_data,
                 session_date = session_date,
                 exercise = ex,
                 load_kg = absolute_load,
                 load_percent_1rm = load_pct,
                 rep_number = rep,
                 mean_concentric_velocity = mean_velocity,
                 peak_velocity = peak_velocity,
                 duration_concentric = duration,
                 range_of_motion = rom,
                 peak_force = estimated_force,
                 mean_power = power,
                 rate_of_force_development = rfd,
                 technique_rating = technique_score,
                 data_quality = quality,
                 measurement_device = ''Linear Position Transducer'',
                 sampling_rate = 1000,
                 calibration_status = ''passed''\<rparr>
           in Inr (s\<lparr>vbt_measurements := vbt_measurements s @ [measurement]\<rparr>))"

text \<open>The body of \<^verbatim>\<open>for load_pct in load_percentages\<close> (lines 136 to 201).\<close>

definition load_body :: "participant \<Rightarrow> string \<Rightarrow> real \<Rightarrow> int \<Rightarrow> state \<Rightarrow> error + state" where
  "load_body participant_data ex exercise_1rm load_pct s =
     (let absolute_load = exercise_1rm * (real_of_int load_pct / 100);
          base_velocity =
            (if ex = ''squat'' then 1.79 - 0.0138 * real_of_int load_pct
             else if ex = ''bench'' then 1.73 - 0.0157 * real_of_int load_pct
             else 1.65 - 0.0143 * real_of_int load_pct);
          (individual_factor, s) = normal 1.0 0.12 s
      in for_each (range_py 1 4)
           (rep_body participant_data ex absolute_load load_pct base_velocity
              individual_factor) s)"

text \<open>The body of \<^verbatim>\<open>for exercise in exercises\<close> (lines 133 to 201).\<close>

definition exercise_body :: "participant \<Rightarrow> string \<Rightarrow> state \<Rightarrow> error + state" where
  "exercise_body participant_data ex s =
     (case getitem participant_data (ex @ ''_1rm'') of
        Inl e \<Rightarrow> Inl e
      | Inr exercise_1rm \<Rightarrow>
          for_each load_percentages (load_body participant_data ex exercise_1rm) s)"

text \<open>The body of \<^verbatim>\<open>for participant_id in range(1, n_participants + 1)\<close> (lines 105 to 201).\<close>

definition participant_body :: "int \<Rightarrow> state \<Rightarrow> error + state" where
  "participant_body pid s =
     (let (age, s) = normal 25 4 s;
          (body_mass, s) = normal 75 12 s;
          (height, s) = normal 175 8 s;
          (e, s) = exponential 2 s;
          training_exp = e + 0.5;
          (noise, s) = normal 0 10 s;
          squat_1rm = body_mass * (1.2 + 0.05 * training_exp) + noise;
          (noise, s) = normal 0 8 s;
          bench_1rm = body_mass * (1.0 + 0.03 * training_exp) + noise;
          (noise, s) = normal 0 12 s;
          deadlift_1rm = body_mass * (1.4 + 0.06 * training_exp) + noise;
          participant_data = \<lparr>
            participant.participant_id = CHR ''P'' # format_03d pid,
            age = age,
            body_mass = body_mass,
            height = height,
            training_experience = training_exp,
            squat_1rm = squat_1rm,
            bench_1rm = bench_1rm,
            deadlift_1rm = deadlift_1rm\<rparr>;
          s = s\<lparr>participants_data := participants_data s @ [participant_data]\<rparr>;
          s = s\<lparr>local_exercises := Some exercises\<rparr>;
          s = s\<lparr>local_load_percentages := Some load_percentages\<rparr>
      in for_each exercises (exercise_body participant_data) s)"

text \<open>
  The assembly of the metadata (lines 211 to 239). The entries of the dictionary are
  evaluated in order: the clock is read for \<^verbatim>\<open>created\<close>, then the two lengths are taken, then
  \<^verbatim>\<open>exercises\<close> and \<^verbatim>\<open>load_percentages\<close> are read. \<^verbatim>\<open>min\<close> and \<^verbatim>\<open>max\<close> of an empty list
  raise \<^verbatim>\<open>ValueError\<close>.
\<close>

definition build_metadata :: "state \<Rightarrow> error + state" where
  "build_metadata s =
     (let (created, s) = now s
      in case local_exercises s of
           None \<Rightarrow> Inl (UnboundLocalError ''exercises'')
         | Some exs \<Rightarrow>
             (case local_load_percentages s of
                None \<Rightarrow> Inl (UnboundLocalError ''load_percentages'')
              | Some [] \<Rightarrow> Inl ValueError
              | Some (lp # lps) \<Rightarrow>
                  Inr (s\<lparr>metadata := Some \<lparr>
                    info_created = created,
                    info_participants = int (length (participants_data s)),
                    info_measurements = int (length (vbt_measurements s)),
                    info_exercises = exs,
                    info_load_range =
                      format_d (fold min lps lp) @ ''-'' @ format_d (fold max lps lp)
                        @ ''% 1RM''\<rparr>\<rparr>)))"

text \<open>
  The state before the participant loop (lines 100 to 103): \<^verbatim>\<open>np.random.seed(42)\<close> starts
  the stream \<open>seed 42\<close>, whatever the generator's state was, the two lists are empty, and
  the other local variables are unbound. The function has no seed parameter.
\<close>

definition initial_state :: "(int \<Rightarrow> real stream) \<Rightarrow> int stream \<Rightarrow> state" where
  "initial_state seed clock0 =
     \<lparr>participants_data = [], vbt_measurements = [], local_exercises = None,
      local_load_percentages = None, metadata = None, rng = seed 42, clock = clock0\<rparr>"

text \<open>
  The function itself: the participant loop, then the metadata. An exception of the loop
  ends the call.
\<close>

definition generate_sample_academic_dataset ::
  "(int \<Rightarrow> real stream) \<Rightarrow> int \<Rightarrow> int stream \<Rightarrow> error + state" where
  "generate_sample_academic_dataset seed n_participants clock0 =
     (case for_each (range_py 1 (n_participants + 1)) participant_body
             (initial_state seed clock0) of
        Inl e \<Rightarrow> Inl e
      | Inr s \<Rightarrow> build_metadata s)"

subsection \<open>The closed form of the loops\<close>

text \<open>
  The definitions from here on are not part of the program; they state what it computes.

  A step with an \<open>effect\<close> checks the generator, appends participants and rows that are
  functions of the generator and the clock at its start, and advances the two streams by
  \<open>a\<close> and \<open>b\<close> elements, or raises \<^verbatim>\<open>ZeroDivisionError\<close>. Running such steps one after the
  other over a list gives the check \<open>seq_ok\<close>, the participants \<open>seq_ps\<close> and the rows
  \<open>seq_rows\<close>.
\<close>

definition effect ::
  "(real stream \<Rightarrow> bool) \<Rightarrow> (real stream \<Rightarrow> participant list) \<Rightarrow>
   (real stream \<Rightarrow> int stream \<Rightarrow> measurement list) \<Rightarrow> nat \<Rightarrow> nat \<Rightarrow> state \<Rightarrow> error + state" where
  "effect ok ps rows a b s =
     (if ok (rng s)
      then Inr (s\<lparr>participants_data := participants_data s @ ps (rng s),
                 vbt_measurements := vbt_measurements s @ rows (rng s) (clock s),
                 rng := sdrop a (rng s), clock := sdrop b (clock s)\<rparr>)
      else Inl ZeroDivisionError)"

fun seq_ok :: "nat \<Rightarrow> ('x \<Rightarrow> real stream \<Rightarrow> bool) \<Rightarrow> 'x list \<Rightarrow> real stream \<Rightarrow> bool" where
  "seq_ok a ok [] g = True"
| "seq_ok a ok (x # xs) g = (ok x g \<and> seq_ok a ok xs (sdrop a g))"

fun seq_ps :: "nat \<Rightarrow> ('x \<Rightarrow> real stream \<Rightarrow> 'p list) \<Rightarrow> 'x list \<Rightarrow> real stream \<Rightarrow> 'p list" where
  "seq_ps a f [] g = []"
| "seq_ps a f (x # xs) g = f x g @ seq_ps a f xs (sdrop a g)"

fun seq_rows ::
  "nat \<Rightarrow> nat \<Rightarrow> ('x \<Rightarrow> real stream \<Rightarrow> int stream \<Rightarrow> 'r list) \<Rightarrow> 'x list \<Rightarrow>
   real stream \<Rightarrow> int stream \<Rightarrow> 'r list" where
  "seq_rows a b f [] g c = []"
| "seq_rows a b f (x # xs) g c = f x g c @ seq_rows a b f xs (sdrop a g) (sdrop b c)"

text \<open>
  One repetition: the row it appends, from the generator \<open>g\<close> and the clock \<open>c\<close> at the
  start of the body, and the check of its division.
\<close>

definition rep_ok :: "real stream \<Rightarrow> bool" where
  "rep_ok g \<longleftrightarrow> (1.2 + 0.2 * g !! 1) * 0.3 \<noteq> 0"

definition row_of ::
  "participant \<Rightarrow> string \<Rightarrow> real \<Rightarrow> int \<Rightarrow> real \<Rightarrow> real \<Rightarrow> int \<Rightarrow> real stream \<Rightarrow> int stream \<Rightarrow> measurement" where
  "row_of p ex load lp base f rep g c =
     \<lparr>participant_id = participant.participant_id p,
      session_date = shd c - timedelta_days (0 + \<lfloor>g !! 4 * real_of_int (30 - 0)\<rfloor>),
      exercise = ex,
      load_kg = load,
      load_percent_1rm = lp,
      rep_number = rep,
      mean_concentric_velocity = max 0.1 (base * f * (1.0 - real_of_int (rep - 1) * 0.03)),
      peak_velocity = max 0.1 (base * f * (1.0 - real_of_int (rep - 1) * 0.03)) * (1.25 + 0.05 * g !! 0),
      duration_concentric = 1.2 + 0.2 * g !! 1,
      range_of_motion = 0.65 + 0.08 * g !! 2,
      peak_force = load * 9.81,
      mean_power = load * 9.81 * max 0.1 (base * f * (1.0 - real_of_int (rep - 1) * 0.03)),
      rate_of_force_development = load * 9.81 / ((1.2 + 0.2 * g !! 1) * 0.3),
      technique_rating = clip (8.5 - real_of_int (lp - 50) * 0.02 + 0.8 * g !! 3) 1 10,
      data_quality = 0.95 + (1.0 - 0.95) * g !! 5,
      measurement_device = ''Linear Position Transducer'',
      sampling_rate = 1000,
      calibration_status = ''passed''\<rparr>"

text \<open>
  One load percentage, one exercise, one participant, the whole run.
\<close>

definition base_velocity_of :: "string \<Rightarrow> int \<Rightarrow> real" where
  "base_velocity_of ex lp =
     (if ex = ''squat'' then 1.79 - 0.0138 * real_of_int lp
      else if ex = ''bench'' then 1.73 - 0.0157 * real_of_int lp
      else 1.65 - 0.0143 * real_of_int lp)"

definition block_ok :: "real stream \<Rightarrow> bool" where
  "block_ok g = seq_ok 6 (\<lambda>rep. rep_ok) [1, 2, 3 :: int] (stl g)"

definition block_rows ::
  "participant \<Rightarrow> string \<Rightarrow> real \<Rightarrow> int \<Rightarrow> real stream \<Rightarrow> int stream \<Rightarrow> measurement list" where
  "block_rows p ex r lp g c =
     seq_rows 6 1
       (\<lambda>rep g' c'. [row_of p ex (r * (real_of_int lp / 100)) lp (base_velocity_of ex lp)
          (1.0 + 0.12 * shd g) rep g' c'])
       [1, 2, 3] (stl g) c"

definition one_rm :: "participant \<Rightarrow> string \<Rightarrow> real" where
  "one_rm p ex =
     (if ex = ''squat'' then squat_1rm p else if ex = ''bench'' then bench_1rm p
      else deadlift_1rm p)"

definition exercise_ok :: "real stream \<Rightarrow> bool" where
  "exercise_ok g = seq_ok 19 (\<lambda>lp. block_ok) load_percentages g"

definition exercise_rows ::
  "participant \<Rightarrow> string \<Rightarrow> real stream \<Rightarrow> int stream \<Rightarrow> measurement list" where
  "exercise_rows p ex g c =
     seq_rows 19 3 (block_rows p ex (one_rm p ex)) load_percentages g c"

definition participant_of :: "int \<Rightarrow> real stream \<Rightarrow> participant" where
  "participant_of i g =
     \<lparr>participant.participant_id = CHR ''P'' # format_03d i,
      age = 25 + 4 * g !! 0,
      body_mass = 75 + 12 * g !! 1,
      height = 175 + 8 * g !! 2,
      training_experience = 2 * g !! 3 + 0.5,
      squat_1rm = (75 + 12 * g !! 1) * (1.2 + 0.05 * (2 * g !! 3 + 0.5)) + (0 + 10 * g !! 4),
      bench_1rm = (75 + 12 * g !! 1) * (1.0 + 0.03 * (2 * g !! 3 + 0.5)) + (0 + 8 * g !! 5),
      deadlift_1rm = (75 + 12 * g !! 1) * (1.4 + 0.06 * (2 * g !! 3 + 0.5)) + (0 + 12 * g !! 6)\<rparr>"

definition participant_ok :: "real stream \<Rightarrow> bool" where
  "participant_ok g = seq_ok 95 (\<lambda>ex. exercise_ok) exercises (sdrop 7 g)"

definition participant_rows :: "int \<Rightarrow> real stream \<Rightarrow> int stream \<Rightarrow> measurement list" where
  "participant_rows i g c =
     seq_rows 95 15 (exercise_rows (participant_of i g)) exercises (sdrop 7 g) c"

definition dataset_ok :: "int \<Rightarrow> real stream \<Rightarrow> bool" where
  "dataset_ok n g = seq_ok 292 (\<lambda>i. participant_ok) (range_py 1 (n + 1)) g"

definition participants_of :: "int \<Rightarrow> real stream \<Rightarrow> participant list" where
  "participants_of n g = seq_ps 292 (\<lambda>i g. [participant_of i g]) (range_py 1 (n + 1)) g"

definition measurements_of :: "int \<Rightarrow> real stream \<Rightarrow> int stream \<Rightarrow> measurement list" where
  "measurements_of n g c = seq_rows 292 45 participant_rows (range_py 1 (n + 1)) g c"

text \<open>
  The assignments of lines 130 and 131, the metadata of a completed run and its final
  state.
\<close>

definition bind_locals :: "state \<Rightarrow> state" where
  "bind_locals s =
     s\<lparr>local_exercises := Some exercises, local_load_percentages := Some load_percentages\<rparr>"

definition dataset_info_of :: "int \<Rightarrow> real stream \<Rightarrow> int stream \<Rightarrow> dataset_info" where
  "dataset_info_of n g c =
     \<lparr>info_created = c !! (45 * nat n),
      info_participants = int (length (participants_of n g)),
      info_measurements = int (length (measurements_of n g c)),
      info_exercises = exercises,
      info_load_range = ''50-95% 1RM''\<rparr>"

definition final_state :: "int \<Rightarrow> real stream \<Rightarrow> int stream \<Rightarrow> state" where
  "final_state n g c =
     \<lparr>participants_data = participants_of n g,
      vbt_measurements = measurements_of n g c,
      local_exercises = Some exercises,
      local_load_percentages = Some load_percentages,
      metadata = Some (dataset_info_of n g c),
      rng = sdrop (292 * nat n) g,
      clock = sdrop (45 * nat n + 1) c\<rparr>"

text \<open>
  The row of participant \<open>j\<close>, exercise \<open>e\<close>, load percentage \<open>l\<close> and repetition \<open>r\<close>, all
  counted from 0, by the positions it reads in the two streams.
\<close>

definition row_at :: "nat \<Rightarrow> nat \<Rightarrow> nat \<Rightarrow> nat \<Rightarrow> real stream \<Rightarrow> int stream \<Rightarrow> measurement" where
  "row_at j e l r g c =
     (let p = participant_of (1 + int j) (sdrop (292 * j) g);
          ex = exercises ! e;
          lp = load_percentages ! l
      in row_of p ex (one_rm p ex * (real_of_int lp / 100)) lp (base_velocity_of ex lp)
           (1.0 + 0.12 * g !! (292 * j + 7 + 95 * e + 19 * l))
           (1 + int r)
           (sdrop (292 * j + 7 + 95 * e + 19 * l + 1 + 6 * r) g)
           (sdrop (45 * j + 15 * e + 3 * l + r) c))"

subsection \<open>Vocabulary of the properties\<close>

text \<open>
  The number a decimal rendering stands for.
\<close>

definition digit_val :: "char \<Rightarrow> nat" where
  "digit_val ch = of_char ch - 48"

definition decimal_val :: "string \<Rightarrow> nat" where
  "decimal_val ds = foldl (\<lambda>a ch. 10 * a + digit_val ch) 0 ds"

text \<open>
  The key of a row, and the combinations of participant, exercise, load percentage and
  repetition in the order of the loops.
\<close>

definition row_key :: "measurement \<Rightarrow> string \<times> string \<times> int \<times> int" where
  "row_key m = (measurement.participant_id m, exercise m, load_percent_1rm m, rep_number m)"

definition combinations :: "int \<Rightarrow> (string \<times> string \<times> int \<times> int) list" where
  "combinations n =
     map (\<lambda>(i, ex, lp, rep). (CHR ''P'' # format_03d i, ex, lp, rep))
       (List.product [1..n]
         (List.product [''squat'', ''bench'', ''deadlift'']
           (List.product [50, 70, 85, 90, 95] [1, 2, 3])))"

text \<open>
  The velocity of a repetition before the floor (lines 144 to 158) and its rating before the
  clip (lines 173 and 174), from the variate \<open>z\<close> of the individual factor and of the rating.
\<close>

definition unclamped_velocity :: "string \<Rightarrow> int \<Rightarrow> real \<Rightarrow> int \<Rightarrow> real" where
  "unclamped_velocity ex lp z rep =
     base_velocity_of ex lp * (1.0 + 0.12 * z) * (1.0 - real_of_int (rep - 1) * 0.03)"

definition unclamped_rating :: "int \<Rightarrow> real \<Rightarrow> real" where
  "unclamped_rating lp z = 8.5 - real_of_int (lp - 50) * 0.02 + 0.8 * z"

text \<open>
  The two tables of a result with the session dates blanked.
\<close>

definition without_session_date :: "measurement \<Rightarrow> measurement" where
  "without_session_date m = m\<lparr>session_date := 0\<rparr>"

definition tables_without_session_date ::
  "error + state \<Rightarrow> error + participant list \<times> measurement list" where
  "tables_without_session_date res =
     (case res of
        Inl e \<Rightarrow> Inl e
      | Inr s \<Rightarrow> Inr (participants_data s, map without_session_date (vbt_measurements s)))"

text \<open>
  Streams of variates for the examples. The first seven variates of a participant are its
  demographics (the fourth is the exponential one); a block starts with its individual
  factor, and each repetition draws the peak multiplier, the duration, the range of motion,
  the rating, the day offset and the data quality, in this order.
\<close>

definition clamp_stream :: "real stream" where
  "clamp_stream =
     [0, 0, 0, 0, 0, 0, 0, - 10, 0, 0, 0, 5, 0, 0, 0, 0, 0, - 10] @- sconst 0"

definition negative_duration_stream :: "real stream" where
  "negative_duration_stream = [0, 0, 0, 0, 0, 0, 0, 0, 0, - 7, - 9] @- sconst 0"

definition slow_peak_stream :: "real stream" where
  "slow_peak_stream = [0, 0, 0, 0, 0, 0, 0, 0, - 8] @- sconst 0"

definition old_age_stream :: "real stream" where
  "old_age_stream = 3 ## sconst 0"

definition negative_mass_stream :: "real stream" where
  "negative_mass_stream = [0, - 7] @- sconst 0"

section \<open>Properties\<close>

subsection \<open>Loops as effects\<close>

text \<open>
  Each loop body appends rows to the two tables and advances the generator and the clock by
  a fixed number of steps, or raises \<^verbatim>\<open>ZeroDivisionError\<close>; \<open>effect\<close> is that shape, and a
  loop over bodies of that shape has it again. The bodies are unfolded level by level up to
  the closed form of the whole function.
\<close>

lemma for_each_effect:
  assumes "\<And>x. x \<in> set xs \<Longrightarrow> body x = effect (ok x) (ps x) (rows x) a b"
  shows "for_each xs body =
     effect (seq_ok a ok xs) (seq_ps a ps xs) (seq_rows a b rows xs) (a * length xs) (b * length xs)"
  using assms
proof (induction xs)
  case Nil
  show ?case by (rule ext) (simp add: effect_def)
next
  case (Cons x xs)
  have hd: "body x = effect (ok x) (ps x) (rows x) a b"
    using Cons.prems by simp
  have tl: "for_each xs body =
     effect (seq_ok a ok xs) (seq_ps a ps xs) (seq_rows a b rows xs) (a * length xs) (b * length xs)"
    using Cons by simp
  show ?case
    by (rule ext) (simp add: hd tl effect_def add.commute)
qed

lemma snth_numerals:
  "g !! 1 = shd (stl g)" "g !! 2 = shd (stl (stl g))" "g !! 3 = shd (stl (stl (stl g)))"
  "g !! 4 = shd (stl (stl (stl (stl g))))" "g !! 5 = shd (stl (stl (stl (stl (stl g)))))"
  "g !! 6 = shd (stl (stl (stl (stl (stl (stl g))))))"
  by (simp_all add: eval_nat_numeral)

lemma sdrop_numerals:
  "sdrop 1 g = stl g"
  "sdrop 6 g = stl (stl (stl (stl (stl (stl g)))))"
  "sdrop 7 g = stl (stl (stl (stl (stl (stl (stl g))))))"
  by (simp_all add: eval_nat_numeral)

lemma rep_body_effect:
  "rep_body p ex load lp base f rep =
     effect rep_ok (\<lambda>g. []) (\<lambda>g c. [row_of p ex load lp base f rep g c]) 6 1"
  by (rule ext)
    (simp add: rep_body_def effect_def rep_ok_def row_of_def normal_def uniform_def randint_def
      now_def Let_def snth_numerals sdrop_numerals)

lemma seq_ps_Nil [simp]: "seq_ps a (\<lambda>x g. []) xs g = []"
  by (induction xs arbitrary: g) simp_all

lemma range_py_1_4: "range_py 1 4 = [1, 2, 3]"
  by (simp add: range_py_def upto.simps)

lemma sdrop_after_stl: "sdrop 18 (stl g) = sdrop 19 g" "sdrop 3 c = stl (stl (stl c))"
  by (simp_all add: eval_nat_numeral)

lemma load_body_effect:
  "load_body p ex r lp = effect block_ok (\<lambda>g. []) (block_rows p ex r lp) 19 3"
proof (rule ext)
  fix s :: state
  let ?f = "1.0 + 0.12 * shd (rng s)"
  let ?body = "rep_body p ex (r * (real_of_int lp / 100)) lp (base_velocity_of ex lp) ?f"
  have loop: "for_each [1, 2, 3] ?body =
      effect (seq_ok 6 (\<lambda>rep. rep_ok) [1, 2, 3 :: int]) (seq_ps 6 (\<lambda>rep g. []) [1, 2, 3 :: int])
        (seq_rows 6 1 (\<lambda>rep g c. [row_of p ex (r * (real_of_int lp / 100)) lp
           (base_velocity_of ex lp) ?f rep g c]) [1, 2, 3]) (6 * length [1, 2, 3 :: int]) (1 * length [1, 2, 3 :: int])"
    by (rule for_each_effect) (rule rep_body_effect)
  have "load_body p ex r lp s = for_each [1, 2, 3] ?body (s\<lparr>rng := stl (rng s)\<rparr>)"
    by (simp add: load_body_def normal_def Let_def range_py_1_4 base_velocity_of_def)
  also have "\<dots> = effect block_ok (\<lambda>g. []) (block_rows p ex r lp) 19 3 s"
    unfolding loop
    by (simp add: effect_def block_ok_def block_rows_def sdrop_after_stl
        del: seq_ok.simps seq_rows.simps)
  finally show "load_body p ex r lp s = effect block_ok (\<lambda>g. []) (block_rows p ex r lp) 19 3 s" .
qed

lemma getitem_exercise:
  "ex \<in> set exercises \<Longrightarrow> getitem p (ex @ ''_1rm'') = Inr (one_rm p ex)"
  by (auto simp: exercises_def getitem_def one_rm_def)

lemma length_load_percentages: "length load_percentages = 5"
  by (simp add: load_percentages_def)

lemma length_exercises: "length exercises = 3"
  by (simp add: exercises_def)

lemma exercise_body_effect:
  assumes "ex \<in> set exercises"
  shows "exercise_body p ex = effect exercise_ok (\<lambda>g. []) (exercise_rows p ex) 95 15"
proof (rule ext)
  fix s :: state
  have loop: "for_each load_percentages (load_body p ex (one_rm p ex)) =
      effect (seq_ok 19 (\<lambda>lp. block_ok) load_percentages)
        (seq_ps 19 (\<lambda>lp g. []) load_percentages)
        (seq_rows 19 3 (block_rows p ex (one_rm p ex)) load_percentages)
        (19 * length load_percentages) (3 * length load_percentages)"
    by (rule for_each_effect) (rule load_body_effect)
  show "exercise_body p ex s = effect exercise_ok (\<lambda>g. []) (exercise_rows p ex) 95 15 s"
    unfolding exercise_body_def getitem_exercise [OF assms] sum.case loop
    by (simp add: effect_def exercise_ok_def exercise_rows_def length_load_percentages)
qed

lemma participant_body_effect:
  "participant_body i s =
     effect participant_ok (\<lambda>g. [participant_of i g]) (participant_rows i) 292 45
       (bind_locals s)"
proof -
  let ?p = "participant_of i (rng s)"
  have loop: "for_each exercises (exercise_body ?p) =
      effect (seq_ok 95 (\<lambda>ex. exercise_ok) exercises) (seq_ps 95 (\<lambda>ex g. []) exercises)
        (seq_rows 95 15 (exercise_rows ?p) exercises)
        (95 * length exercises) (15 * length exercises)"
    by (rule for_each_effect) (rule exercise_body_effect)
  have "participant_body i s =
      for_each exercises (exercise_body ?p)
        (s\<lparr>rng := sdrop 7 (rng s), participants_data := participants_data s @ [?p],
           local_exercises := Some exercises,
           local_load_percentages := Some load_percentages\<rparr>)"
    by (simp add: participant_body_def participant_of_def normal_def exponential_def Let_def
        snth_numerals sdrop_numerals)
  also have "\<dots> = effect participant_ok (\<lambda>g. [participant_of i g]) (participant_rows i) 292 45
      (bind_locals s)"
    unfolding loop
    by (simp add: effect_def bind_locals_def participant_ok_def participant_rows_def
        length_exercises)
  finally show ?thesis .
qed

text \<open>
  The participant loop binds the two local variables in every iteration, so after a loop
  with at least one iteration they are bound, and after a loop with none they are not.
\<close>

lemma for_each_effect_bind:
  assumes "\<And>x s. x \<in> set xs \<Longrightarrow> body x s = effect (ok x) (ps x) (rows x) a b (bind_locals s)"
  shows "for_each xs body s =
     (if xs = [] then Inr s
      else map_sum id bind_locals
        (effect (seq_ok a ok xs) (seq_ps a ps xs) (seq_rows a b rows xs)
           (a * length xs) (b * length xs) s))"
  using assms
proof (induction xs arbitrary: s)
  case Nil
  show ?case by simp
next
  case (Cons x xs)
  have hd: "body x s = effect (ok x) (ps x) (rows x) a b (bind_locals s)" for s
    using Cons.prems by simp
  have tl: "for_each xs body s =
     (if xs = [] then Inr s
      else map_sum id bind_locals
        (effect (seq_ok a ok xs) (seq_ps a ps xs) (seq_rows a b rows xs)
           (a * length xs) (b * length xs) s))" for s
    using Cons by simp
  show ?case
    by (simp add: hd tl effect_def bind_locals_def add.commute)
qed

lemma length_range_py: "length (range_py 1 (n + 1)) = nat n"
  by (simp add: range_py_def)

lemma range_py_empty: "range_py 1 (n + 1) = [] \<longleftrightarrow> n \<le> 0"
  by (auto simp: range_py_def)

lemma load_range_literal: "format_d 50 = ''50''" "format_d 95 = ''95''"
  by code_simp+

lemma build_metadata_unbound:
  "build_metadata (initial_state seed c) = Inl (UnboundLocalError ''exercises'')"
  by (simp add: build_metadata_def initial_state_def now_def)

lemma participant_loop:
  "for_each (range_py 1 (n + 1)) participant_body s =
     (if n \<le> 0 then Inr s
      else map_sum id bind_locals
        (effect (dataset_ok n) (participants_of n) (measurements_of n)
           (292 * nat n) (45 * nat n) s))"
proof -
  have "for_each (range_py 1 (n + 1)) participant_body s =
     (if range_py 1 (n + 1) = [] then Inr s
      else map_sum id bind_locals
        (effect (seq_ok 292 (\<lambda>i. participant_ok) (range_py 1 (n + 1)))
           (seq_ps 292 (\<lambda>i g. [participant_of i g]) (range_py 1 (n + 1)))
           (seq_rows 292 45 participant_rows (range_py 1 (n + 1)))
           (292 * length (range_py 1 (n + 1))) (45 * length (range_py 1 (n + 1))) s))"
    by (rule for_each_effect_bind) (rule participant_body_effect)
  also have "(\<lambda>g. seq_ok 292 (\<lambda>i. participant_ok) (range_py 1 (n + 1)) g) = dataset_ok n"
    by (rule ext) (simp add: dataset_ok_def)
  also have "(\<lambda>g. seq_ps 292 (\<lambda>i g. [participant_of i g]) (range_py 1 (n + 1)) g)
      = participants_of n"
    by (rule ext) (simp add: participants_of_def)
  also have "(\<lambda>g c. seq_rows 292 45 participant_rows (range_py 1 (n + 1)) g c)
      = measurements_of n"
    by (intro ext) (simp add: measurements_of_def)
  finally show ?thesis
    by (simp only: range_py_empty length_range_py)
qed

lemma build_metadata_final:
  "build_metadata
     (bind_locals (initial_state seed c
        \<lparr>participants_data := participants_data (initial_state seed c) @ participants_of n (seed 42),
         vbt_measurements := vbt_measurements (initial_state seed c)
           @ measurements_of n (seed 42) c,
         rng := sdrop (292 * nat n) (seed 42), clock := sdrop (45 * nat n) c\<rparr>))
   = Inr (final_state n (seed 42) c)"
proof -
  have lps: "load_percentages = 50 # [70, 85, 90, 95]"
    by (simp add: load_percentages_def)
  show ?thesis
    unfolding build_metadata_def bind_locals_def initial_state_def now_def lps
    by (simp add: load_range_literal final_state_def dataset_info_of_def lps)
qed

lemma generate_closed:
  "generate_sample_academic_dataset seed n c =
     (if n \<le> 0 then Inl (UnboundLocalError ''exercises'')
      else if dataset_ok n (seed 42) then Inr (final_state n (seed 42) c)
      else Inl ZeroDivisionError)"
proof (cases "n \<le> 0")
  case True
  then show ?thesis
    by (simp add: generate_sample_academic_dataset_def participant_loop build_metadata_unbound)
next
  case False
  have init: "rng (initial_state seed c) = seed 42" "clock (initial_state seed c) = c"
    by (simp_all add: initial_state_def)
  show ?thesis
  proof (cases "dataset_ok n (seed 42)")
    case True
    then show ?thesis
      using False
      by (simp add: generate_sample_academic_dataset_def participant_loop effect_def init
          build_metadata_final)
  next
    case no: False
    then show ?thesis
      using False
      by (simp add: generate_sample_academic_dataset_def participant_loop effect_def init)
  qed
qed

lemma generate_Inr:
  assumes "generate_sample_academic_dataset seed n c = Inr s"
  shows "dataset_ok n (seed 42)"
    and "participants_data s = participants_of n (seed 42)"
    and "vbt_measurements s = measurements_of n (seed 42) c"
    and "rng s = sdrop (292 * nat n) (seed 42)"
    and "clock s = sdrop (45 * nat n + 1) c"
    and "0 < n"
    and "metadata s = Some (dataset_info_of n (seed 42) c)"
  using assms by (auto simp: generate_closed final_state_def split: if_splits)

subsection \<open>Rows by position\<close>

text \<open>
  The row of participant \<open>j\<close>, exercise \<open>e\<close>, load \<open>l\<close> and repetition \<open>r\<close> (all counted from
  0) is \<open>row_at j e l r\<close>: it reads the variates from position
  \<open>292 * j + 7 + 95 * e + 19 * l\<close> on and the clock at \<open>45 * j + 15 * e + 3 * l + r\<close>.
\<close>

lemma set_seq_rows:
  "set (seq_rows a b f xs g c) =
     (\<Union>i<length xs. set (f (xs ! i) (sdrop (a * i) g) (sdrop (b * i) c)))"
proof (induction xs arbitrary: g c)
  case Nil
  show ?case by simp
next
  case (Cons x xs)
  show ?case
    by (simp add: Cons.IH lessThan_Suc_eq_insert_0 image_comp add.commute)
qed

lemma set_seq_ps:
  "set (seq_ps a f xs g) = (\<Union>i<length xs. set (f (xs ! i) (sdrop (a * i) g)))"
proof (induction xs arbitrary: g)
  case Nil
  show ?case by simp
next
  case (Cons x xs)
  show ?case
    by (simp add: Cons.IH lessThan_Suc_eq_insert_0 image_comp add.commute)
qed

lemma map_seq_rows:
  assumes "\<And>x g c. x \<in> set xs \<Longrightarrow> map h (f x g c) = H x"
  shows "map h (seq_rows a b f xs g c) = concat (map H xs)"
  using assms by (induction xs arbitrary: g c) simp_all

lemma map_seq_ps:
  assumes "\<And>x g. x \<in> set xs \<Longrightarrow> map h (f x g) = H x"
  shows "map h (seq_ps a f xs g) = concat (map H xs)"
  using assms by (induction xs arbitrary: g) simp_all

lemma seq_ok_iff:
  "seq_ok a ok xs g \<longleftrightarrow> (\<forall>i<length xs. ok (xs ! i) (sdrop (a * i) g))"
proof (induction xs arbitrary: g)
  case Nil
  show ?case by simp
next
  case (Cons x xs)
  show ?case
    by (simp add: Cons.IH All_less_Suc2 add.commute)
qed

lemma in_seq_rows:
  "m \<in> set (seq_rows a b f xs g c) \<longleftrightarrow>
     (\<exists>i<length xs. m \<in> set (f (xs ! i) (sdrop (a * i) g) (sdrop (b * i) c)))"
  by (auto simp: set_seq_rows)

lemma in_seq_ps:
  "p \<in> set (seq_ps a f xs g) \<longleftrightarrow> (\<exists>i<length xs. p \<in> set (f (xs ! i) (sdrop (a * i) g)))"
  by (auto simp: set_seq_ps)

lemma nth_range_py:
  "i < nat n \<Longrightarrow> range_py 1 (n + 1) ! i = 1 + int i"
  "i < nat n \<Longrightarrow> range_py 1 (1 + n) ! i = 1 + int i"
  by (simp_all add: range_py_def)

lemma nth_reps: "r < 3 \<Longrightarrow> [1, 2, 3 :: int] ! r = 1 + int r"
  by (auto simp: less_Suc_eq numeral_3_eq_3)

lemma in_block_rows:
  "m \<in> set (block_rows p ex x lp g c) \<longleftrightarrow>
     (\<exists>r<3. m = row_of p ex (x * (real_of_int lp / 100)) lp (base_velocity_of ex lp)
        (1.0 + 0.12 * shd g) (1 + int r) (sdrop (6 * r) (stl g)) (sdrop r c))"
proof -
  have len: "length [1, 2, 3 :: int] = 3"
    by simp
  show ?thesis
    unfolding block_rows_def in_seq_rows len
    by (simp add: nth_reps cong: conj_cong)
qed

lemma in_exercise_rows:
  "m \<in> set (exercise_rows p ex g c) \<longleftrightarrow>
     (\<exists>l<5. \<exists>r<3. m = row_of p ex (one_rm p ex * (real_of_int (load_percentages ! l) / 100))
        (load_percentages ! l) (base_velocity_of ex (load_percentages ! l))
        (1.0 + 0.12 * g !! (19 * l)) (1 + int r) (sdrop (19 * l + 1 + 6 * r) g)
        (sdrop (3 * l + r) c))"
  unfolding exercise_rows_def in_seq_rows in_block_rows length_load_percentages
  by (simp add: add_ac)

lemma in_participant_rows:
  "m \<in> set (participant_rows i g c) \<longleftrightarrow>
     (\<exists>e<3. \<exists>l<5. \<exists>r<3. m = row_of (participant_of i g) (exercises ! e)
        (one_rm (participant_of i g) (exercises ! e) * (real_of_int (load_percentages ! l) / 100))
        (load_percentages ! l) (base_velocity_of (exercises ! e) (load_percentages ! l))
        (1.0 + 0.12 * g !! (7 + 95 * e + 19 * l)) (1 + int r)
        (sdrop (7 + 95 * e + 19 * l + 1 + 6 * r) g)
        (sdrop (15 * e + 3 * l + r) c))"
  unfolding participant_rows_def in_seq_rows in_exercise_rows length_exercises
  by (simp add: add_ac sdrop_snth)

lemma in_measurements_of:
  "m \<in> set (measurements_of n g c) \<longleftrightarrow>
     (\<exists>j<nat n. \<exists>e<3. \<exists>l<5. \<exists>r<3. m = row_at j e l r g c)"
  unfolding measurements_of_def in_seq_rows in_participant_rows length_range_py row_at_def Let_def
  by (simp add: nth_range_py add_ac sdrop_snth cong: conj_cong)

lemma in_participants_of:
  "p \<in> set (participants_of n g) \<longleftrightarrow>
     (\<exists>j<nat n. p = participant_of (1 + int j) (sdrop (292 * j) g))"
  unfolding participants_of_def in_seq_ps length_range_py
  by (simp add: nth_range_py cong: conj_cong)

lemma participant_id_participant_of [simp]:
  "participant.participant_id (participant_of i g) = CHR ''P'' # format_03d i"
  by (simp add: participant_of_def)

lemma row_at_fields:
  "measurement.participant_id (row_at j e l r g c) = CHR ''P'' # format_03d (1 + int j)"
  "exercise (row_at j e l r g c) = exercises ! e"
  "load_percent_1rm (row_at j e l r g c) = load_percentages ! l"
  "rep_number (row_at j e l r g c) = 1 + int r"
  "mean_concentric_velocity (row_at j e l r g c) =
     max 0.1 (base_velocity_of (exercises ! e) (load_percentages ! l)
       * (1.0 + 0.12 * g !! (292 * j + 7 + 95 * e + 19 * l)) * (1.0 - real r * 0.03))"
  by (simp_all add: row_at_def row_of_def Let_def)

lemma session_date_row_at:
  "session_date (row_at j e l r g c) =
     c !! (45 * j + 15 * e + 3 * l + r)
     - timedelta_days \<lfloor>g !! (292 * j + 7 + 95 * e + 19 * l + 1 + 6 * r + 4) * 30\<rfloor>"
  by (simp add: row_at_def row_of_def Let_def sdrop_snth)

lemma row_at_0_in: "0 < n \<Longrightarrow> row_at 0 0 0 0 g c \<in> set (measurements_of n g c)"
  unfolding in_measurements_of by (intro exI [of _ 0] conjI) simp_all

lemma hd_measurements_of:
  assumes "0 < n"
  shows "hd (measurements_of n g c) = row_at 0 0 0 0 g c"
proof -
  have "range_py 1 (n + 1) = 1 # range_py 2 (n + 1)"
    using assms by (simp add: range_py_def upto_rec1)
  then show ?thesis
    by (simp add: measurements_of_def participant_rows_def exercise_rows_def block_rows_def
        exercises_def load_percentages_def row_at_def Let_def)
qed

lemma take_3_measurements_of:
  assumes "0 < n"
  shows "take 3 (measurements_of n g c) =
     [row_at 0 0 0 0 g c, row_at 0 0 0 1 g c, row_at 0 0 0 2 g c]"
proof -
  have "range_py 1 (n + 1) = 1 # range_py 2 (n + 1)"
    using assms by (simp add: range_py_def upto_rec1)
  then show ?thesis
    by (simp add: measurements_of_def participant_rows_def exercise_rows_def block_rows_def
        exercises_def load_percentages_def row_at_def Let_def eval_nat_numeral)
qed

lemma take_4_measurements_of:
  assumes "0 < n"
  shows "take 4 (measurements_of n g c) =
     [row_at 0 0 0 0 g c, row_at 0 0 0 1 g c, row_at 0 0 0 2 g c, row_at 0 0 1 0 g c]"
proof -
  have "range_py 1 (n + 1) = 1 # range_py 2 (n + 1)"
    using assms by (simp add: range_py_def upto_rec1)
  then show ?thesis
    by (simp add: measurements_of_def participant_rows_def exercise_rows_def block_rows_def
        exercises_def load_percentages_def row_at_def Let_def eval_nat_numeral mult.commute)
qed

lemma length_seq_ps_single: "length (seq_ps a (\<lambda>x g. [f x g]) xs g) = length xs"
  by (induction xs arbitrary: g) simp_all

lemma nth_seq_ps_single:
  "i < length xs \<Longrightarrow> seq_ps a (\<lambda>x g. [f x g]) xs g ! i = f (xs ! i) (sdrop (a * i) g)"
proof (induction xs arbitrary: g i)
  case Nil
  then show ?case by simp
next
  case (Cons x xs)
  show ?case
  proof (cases i)
    case 0
    then show ?thesis by simp
  next
    case (Suc k)
    then have "k < length xs"
      using Cons.prems by simp
    then show ?thesis
      using Cons.IH [of k "sdrop a g"] Suc by (simp add: add.commute)
  qed
qed

lemma length_participants_of: "length (participants_of n g) = nat n"
  by (simp add: participants_of_def length_seq_ps_single length_range_py)

lemma nth_participants_of:
  "j < nat n \<Longrightarrow> participants_of n g ! j = participant_of (1 + int j) (sdrop (292 * j) g)"
  by (simp add: participants_of_def nth_seq_ps_single length_range_py nth_range_py)

subsection \<open>When a run completes\<close>

text \<open>
  For a positive participant count the division by \<open>duration * 0.3\<close> is the only source of
  an error: a run completes unless the duration variate of some repetition is \<open>-6\<close>, which
  makes the duration \<open>1.2 + 0.2 * z\<close> zero. For a participant count of zero or less the
  metadata reads the unbound \<^verbatim>\<open>exercises\<close> (\<open>generate_closed\<close>).
\<close>

lemma rep_ok_iff: "rep_ok g \<longleftrightarrow> g !! 1 \<noteq> - 6"
  by (simp add: rep_ok_def) argo

lemma dataset_ok_iff:
  "dataset_ok n g \<longleftrightarrow>
     (\<forall>j<nat n. \<forall>e<3. \<forall>l<5. \<forall>r<3. g !! (292 * j + 7 + 95 * e + 19 * l + 1 + 6 * r + 1) \<noteq> - 6)"
proof -
  have len: "length [1, 2, 3 :: int] = 3"
    by simp
  show ?thesis
    unfolding dataset_ok_def participant_ok_def exercise_ok_def block_ok_def seq_ok_iff
      rep_ok_iff length_range_py length_exercises length_load_percentages len
    by (simp add: sdrop_snth add_ac)
qed

lemma dataset_ok_if_no_zero_duration: "- 6 \<notin> sset g \<Longrightarrow> dataset_ok n g"
  unfolding dataset_ok_iff by (metis snth_sset)

lemma generate_returns:
  assumes "- 6 \<notin> sset (seed 42)" and "0 < n"
  shows "\<exists>s. generate_sample_academic_dataset seed n c = Inr s"
  using dataset_ok_if_no_zero_duration [OF assms(1)] assms(2) by (simp add: generate_closed)

lemma snth_SCons_numeral: "(x ## g) !! numeral k = g !! pred_numeral k"
  by (simp add: numeral_eq_Suc)

lemma snth_sconst: "sconst x !! k = x"
  using snth_sset [of "sconst x" k] by simp

lemmas eval_stream = sdrop_snth snth_SCons_numeral snth_sconst

subsection \<open>Participant identifiers\<close>

text \<open>
  The decimal rendering is read back by \<open>decimal_val\<close>, so two non-negative numbers with the
  same rendering are equal.
\<close>

declare decimal.simps [simp del]

lemma digit_val_digit_char: "d < 10 \<Longrightarrow> digit_val (digit_char d) = d"
  by (simp add: digit_val_def digit_char_def)

lemma decimal_val_decimal: "decimal_val (decimal n) = n"
proof (induction n rule: decimal.induct)
  case (1 n)
  show ?case
  proof (cases "n < 10")
    case True
    then show ?thesis
      by (subst decimal.simps) (simp add: decimal_val_def digit_val_digit_char)
  next
    case False
    then have "decimal_val (decimal (n div 10)) = n div 10"
      using 1 by simp
    then show ?thesis
      using False
      by (subst decimal.simps) (simp add: decimal_val_def digit_val_digit_char)
  qed
qed

lemma decimal_val_zero_pad: "decimal_val (zero_pad w ds) = decimal_val ds"
proof -
  have "foldl (\<lambda>a ch. 10 * a + digit_val ch) 0 (replicate k (CHR ''0'')) = 0" for k
    by (induction k) (simp_all add: digit_val_def)
  then show ?thesis
    by (simp add: decimal_val_def zero_pad_def)
qed

lemma format_03d_inj:
  assumes "0 \<le> i" and "0 \<le> j" and "format_03d i = format_03d j"
  shows "i = j"
proof -
  have "decimal_val (format_03d k) = nat k" if "0 \<le> k" for k
    using that by (simp add: format_03d_def decimal_val_zero_pad decimal_val_decimal)
  then have "nat i = nat j"
    using assms by metis
  then show ?thesis
    using assms by simp
qed

lemma format_03d_examples:
  "format_03d 1 = ''001'' \<and> format_03d 42 = ''042'' \<and> format_03d 100 = ''100''
   \<and> format_03d 1234 = ''1234'' \<and> format_03d (- 5) = ''-05''"
  by code_simp

lemma ids_participants_of:
  "map participant.participant_id (participants_of n g) =
     map (\<lambda>i. CHR ''P'' # format_03d i) [1..n]"
proof -
  have "map participant.participant_id (participants_of n g) =
      concat (map (\<lambda>i. [CHR ''P'' # format_03d i]) (range_py 1 (n + 1)))"
    unfolding participants_of_def by (rule map_seq_ps) simp
  then show ?thesis
    by (simp add: range_py_def concat_map_singleton)
qed

lemma distinct_ids: "distinct (map (\<lambda>i. CHR ''P'' # format_03d i) [1..n])"
  by (auto simp: distinct_map inj_on_def intro: format_03d_inj)

subsection \<open>Keys of the rows\<close>

lemma row_key_row_of [simp]:
  "row_key (row_of p ex x lp b f rep g c) = (participant.participant_id p, ex, lp, rep)"
  by (simp add: row_key_def row_of_def)

lemma keys_block_rows:
  "map row_key (block_rows p ex x lp g c) =
     map (\<lambda>rep. (participant.participant_id p, ex, lp, rep)) [1, 2, 3]"
  by (simp add: block_rows_def)

lemma keys_exercise_rows:
  "map row_key (exercise_rows p ex g c) =
     concat (map (\<lambda>lp. map (\<lambda>rep. (participant.participant_id p, ex, lp, rep)) [1, 2, 3])
       load_percentages)"
  unfolding exercise_rows_def by (rule map_seq_rows) (rule keys_block_rows)

lemma keys_participant_rows:
  "map row_key (participant_rows i g c) =
     concat (map (\<lambda>ex. concat (map (\<lambda>lp. map (\<lambda>rep. (CHR ''P'' # format_03d i, ex, lp, rep))
       [1, 2, 3]) load_percentages)) exercises)"
  unfolding participant_rows_def
  by (rule map_seq_rows [THEN trans]) (rule keys_exercise_rows, simp)

lemma keys_measurements_of: "map row_key (measurements_of n g c) = combinations n"
proof -
  have "map row_key (measurements_of n g c) =
      concat (map (\<lambda>i. concat (map (\<lambda>ex. concat (map (\<lambda>lp.
        map (\<lambda>rep. (CHR ''P'' # format_03d i, ex, lp, rep)) [1, 2, 3])
        load_percentages)) exercises)) (range_py 1 (n + 1)))"
    unfolding measurements_of_def by (rule map_seq_rows) (rule keys_participant_rows)
  also have "\<dots> = combinations n"
    by (simp add: combinations_def product_concat_map map_concat comp_def range_py_def
        exercises_def load_percentages_def del: List.product.simps)
  finally show ?thesis .
qed

lemma distinct_combinations: "distinct (combinations n)"
  unfolding combinations_def distinct_map
proof (intro conjI)
  show "distinct (List.product [1..n] (List.product [''squat'', ''bench'', ''deadlift'']
      (List.product [50, 70, 85, 90, 95 :: int] [1, 2, 3 :: int])))"
    by (intro distinct_product) simp_all
  show "inj_on (\<lambda>(i, ex, lp, rep). (CHR ''P'' # format_03d i, ex, lp, rep))
      (set (List.product [1..n] (List.product [''squat'', ''bench'', ''deadlift'']
        (List.product [50, 70, 85, 90, 95 :: int] [1, 2, 3 :: int]))))"
    by (rule inj_onI) (auto dest: format_03d_inj [rotated 2])
qed

lemma length_combinations: "length (combinations n) = 45 * nat n"
  by (simp add: combinations_def)

lemma length_vbt_measurements:
  assumes "generate_sample_academic_dataset seed n c = Inr s"
  shows "length (vbt_measurements s) = 45 * nat n"
proof -
  have "length (vbt_measurements s) = length (map row_key (vbt_measurements s))"
    by simp
  also have "\<dots> = 45 * nat n"
    unfolding generate_Inr(3) [OF assms] keys_measurements_of by (rule length_combinations)
  finally show ?thesis .
qed

lemma distinct_exercises: "distinct exercises"
  by (simp add: exercises_def)

lemma distinct_load_percentages: "distinct load_percentages"
  by (simp add: load_percentages_def)

lemma row_at_block_eq:
  assumes "e < 3" "e' < 3" "l < 5" "l' < 5"
    and "measurement.participant_id (row_at j e l r g c) =
         measurement.participant_id (row_at j' e' l' r' g c)"
    and "exercise (row_at j e l r g c) = exercise (row_at j' e' l' r' g c)"
    and "load_percent_1rm (row_at j e l r g c) = load_percent_1rm (row_at j' e' l' r' g c)"
  shows "j = j' \<and> e = e' \<and> l = l'"
proof -
  have "1 + int j = 1 + int j'"
    using assms(5) unfolding row_at_fields by (intro format_03d_inj) simp_all
  moreover have "e = e'"
    using assms(1,2,6) unfolding row_at_fields
    by (simp add: nth_eq_iff_index_eq [OF distinct_exercises] length_exercises)
  moreover have "l = l'"
    using assms(3,4,7) unfolding row_at_fields
    by (simp add: nth_eq_iff_index_eq [OF distinct_load_percentages] length_load_percentages)
  ultimately show ?thesis
    by simp
qed

subsection \<open>The metadata of a completed run\<close>

lemma metadata_of_completed_run:
  assumes "generate_sample_academic_dataset seed n c = Inr s"
  shows "metadata s = Some
     \<lparr>info_created = c !! (45 * nat n),
      info_participants = n,
      info_measurements = 45 * n,
      info_exercises = [''squat'', ''bench'', ''deadlift''],
      info_load_range = ''50-95% 1RM''\<rparr>"
proof -
  have "length (measurements_of n (seed 42) c) = 45 * nat n"
    using length_vbt_measurements [OF assms] unfolding generate_Inr(3) [OF assms] .
  then show ?thesis
    using generate_Inr(6) [OF assms]
    by (simp add: generate_Inr(7) [OF assms] dataset_info_of_def length_participants_of
        exercises_def)
qed

text \<open>
  Two places where the source disagrees with itself. The rows and \<^verbatim>\<open>dataset_info\<close> name the
  second exercise \<^verbatim>\<open>bench\<close>, the protocol embedded in the same metadata \<^verbatim>\<open>bench_press\<close>. The
  comment of line 107 gives the ages as 18 to 35, and the age is stored as drawn: the age
  variate 3 gives the age 37.
\<close>

lemma exercises_differ_from_protocol: "exercises \<noteq> protocol_exercises"
  by (simp add: exercises_def protocol_exercises_def)

lemma age_is_stored_as_drawn:
  "\<exists>s. generate_sample_academic_dataset (\<lambda>k. old_age_stream) 1 (sconst 0) = Inr s
     \<and> map age (participants_data s) = [37]"
proof -
  have "- 6 \<notin> sset old_age_stream"
    by (simp add: old_age_stream_def)
  then obtain s where
    s: "generate_sample_academic_dataset (\<lambda>k. old_age_stream) 1 (sconst 0) = Inr s"
    using generate_returns [of "\<lambda>k. old_age_stream" 1] by auto
  have "participants_data s = [participant_of 1 old_age_stream]"
    unfolding generate_Inr(2) [OF s] by (simp add: participants_of_def range_py_def upto.simps)
  then have a: "map age (participants_data s) = [37]"
    by (simp add: participant_of_def old_age_stream_def)
  show ?thesis
    by (rule exI [of _ s]) (simp only: s a simp_thms)
qed

subsection \<open>Determinism\<close>

lemma seq_rows_clock:
  assumes "\<And>x g c c'. map h (f x g c) = map h (f x g c')"
  shows "map h (seq_rows a b f xs g c) = map h (seq_rows a b f xs g c')"
proof (induction xs arbitrary: g c c')
  case Nil
  show ?case by simp
next
  case (Cons x xs)
  show ?case
    using assms [of x g c c'] Cons.IH [of "sdrop a g" "sdrop b c" "sdrop b c'"] by simp
qed

lemma measurements_of_clock:
  "map without_session_date (measurements_of n g c) =
   map without_session_date (measurements_of n g c')"
  unfolding measurements_of_def participant_rows_def exercise_rows_def block_rows_def
  by (intro seq_rows_clock) (simp add: without_session_date_def row_of_def)

text \<open>
  Two runs for one participant on the same stream of variates, the clock reading 0 in the
  first and 1 in the second: the session dates of the first rows are 0 and 1, so the
  measurement tables differ, where claim C1 expects them equal.
\<close>

theorem session_date_reads_clock_counterexample:
  "\<exists>s1 s2. generate_sample_academic_dataset (\<lambda>k. sconst 0) 1 (sconst 0) = Inr s1
     \<and> generate_sample_academic_dataset (\<lambda>k. sconst 0) 1 (sconst 1) = Inr s2
     \<and> session_date (hd (vbt_measurements s1)) = 0
     \<and> session_date (hd (vbt_measurements s2)) = 1
     \<and> vbt_measurements s1 \<noteq> vbt_measurements s2"
proof -
  have ok: "- 6 \<notin> sset (sconst (0 :: real))"
    by simp
  obtain s1 where s1: "generate_sample_academic_dataset (\<lambda>k. sconst 0) 1 (sconst 0) = Inr s1"
    using generate_returns [of "\<lambda>k. sconst 0" 1, OF ok] by auto
  obtain s2 where s2: "generate_sample_academic_dataset (\<lambda>k. sconst 0) 1 (sconst 1) = Inr s2"
    using generate_returns [of "\<lambda>k. sconst 0" 1, OF ok] by auto
  have d1: "session_date (hd (vbt_measurements s1)) = 0"
    unfolding generate_Inr(3) [OF s1] hd_measurements_of [of 1, simplified]
    by (simp add: row_at_def row_of_def Let_def timedelta_days_def eval_stream)
  have d2: "session_date (hd (vbt_measurements s2)) = 1"
    unfolding generate_Inr(3) [OF s2] hd_measurements_of [of 1, simplified]
    by (simp add: row_at_def row_of_def Let_def timedelta_days_def eval_stream)
  have ne: "vbt_measurements s1 \<noteq> vbt_measurements s2"
    using d1 d2 by auto
  show ?thesis
    by (intro exI [of _ s1] exI [of _ s2]) (simp only: s1 s2 d1 d2 ne simp_thms)
qed

text \<open>
  Claim C1, as the code has it. Two runs with the same participant count (the seed is the
  constant 42) end alike whatever the clock reads: both raise the same error, or both
  return the same participants table and measurement tables that agree in every field but
  \<open>session_date\<close>, which is computed from \<^verbatim>\<open>datetime.now()\<close>.
\<close>

theorem deterministic_up_to_session_date:
  "tables_without_session_date (generate_sample_academic_dataset seed n c) =
   tables_without_session_date (generate_sample_academic_dataset seed n c')"
  by (simp add: tables_without_session_date_def generate_closed final_state_def
      measurements_of_clock [of n _ c c'])

subsection \<open>Velocity floor and rating clip\<close>

lemma duration_zero_iff: "(1.2 :: real) + 0.2 * z = 0 \<longleftrightarrow> z = - 6"
  by argo

lemma clamped_fields_row_at:
  "mean_concentric_velocity (row_at j e l r g c) =
     max 0.1 (unclamped_velocity (exercises ! e) (load_percentages ! l)
       (g !! (292 * j + 7 + 95 * e + 19 * l)) (1 + int r))"
  "technique_rating (row_at j e l r g c) =
     (let x = unclamped_rating (load_percentages ! l)
        (g !! (292 * j + 7 + 95 * e + 19 * l + 1 + 6 * r + 3))
      in if x < 1 then 1 else if 10 < x then 10 else x)"
  by (simp_all add: row_at_def row_of_def Let_def unclamped_velocity_def unclamped_rating_def
      clip_def sdrop_snth min_def max_def)

text \<open>
  Claim C2. For a positive participant count and a stream on which no drawn duration is zero
  (the variates at the positions \<open>292 * j + 7 + 95 * e + 19 * l + 1 + 6 * r + 1\<close>), whatever
  the other variates are: the run completes with \<open>45 * n\<close> rows after consuming exactly
  \<open>292 * n\<close> variates, so nothing is rejected or drawn again; every row has a mean concentric
  velocity of at least 0.1 and a technique rating between 1 and 10; and the stored values
  are the clamped samples: the velocity of participant \<open>j\<close>, exercise \<open>e\<close>, load \<open>l\<close> and
  repetition \<open>r\<close> is the maximum of 0.1 and the unclamped velocity, and the rating is the
  unclamped rating where that lies between 1 and 10, 1 where it is smaller and 10 where it
  is larger.
\<close>

theorem velocity_floor_and_rating_clip:
  assumes "0 < n"
    and "\<forall>j<nat n. \<forall>e<3. \<forall>l<5. \<forall>r<3.
           1.2 + 0.2 * seed 42 !! (292 * j + 7 + 95 * e + 19 * l + 1 + 6 * r + 1) \<noteq> 0"
  shows "\<exists>s. generate_sample_academic_dataset seed n c = Inr s
     \<and> length (vbt_measurements s) = 45 * nat n
     \<and> rng s = sdrop (292 * nat n) (seed 42)
     \<and> (\<forall>m \<in> set (vbt_measurements s).
          0.1 \<le> mean_concentric_velocity m
          \<and> 1 \<le> technique_rating m \<and> technique_rating m \<le> 10
          \<and> (\<exists>j<nat n. \<exists>e<3. \<exists>l<5. \<exists>r<3.
                measurement.participant_id m = CHR ''P'' # format_03d (1 + int j)
                \<and> exercise m = exercises ! e
                \<and> load_percent_1rm m = load_percentages ! l
                \<and> rep_number m = 1 + int r
                \<and> mean_concentric_velocity m =
                    max 0.1 (unclamped_velocity (exercises ! e) (load_percentages ! l)
                      (seed 42 !! (292 * j + 7 + 95 * e + 19 * l)) (1 + int r))
                \<and> technique_rating m =
                    (let x = unclamped_rating (load_percentages ! l)
                       (seed 42 !! (292 * j + 7 + 95 * e + 19 * l + 1 + 6 * r + 3))
                     in if x < 1 then 1 else if 10 < x then 10 else x)))"
proof -
  let ?g = "seed 42"
  have "dataset_ok n ?g"
    unfolding dataset_ok_iff using assms(2) [unfolded duration_zero_iff] .
  then have gen: "generate_sample_academic_dataset seed n c = Inr (final_state n ?g c)"
    using assms(1) by (simp add: generate_closed)
  let ?s = "final_state n ?g c"
  have len: "length (vbt_measurements ?s) = 45 * nat n"
    using length_vbt_measurements [OF gen] .
  have used: "rng ?s = sdrop (292 * nat n) ?g"
    using generate_Inr(4) [OF gen] .
  have rows: "0.1 \<le> mean_concentric_velocity m
      \<and> 1 \<le> technique_rating m \<and> technique_rating m \<le> 10
      \<and> (\<exists>j<nat n. \<exists>e<3. \<exists>l<5. \<exists>r<3.
            measurement.participant_id m = CHR ''P'' # format_03d (1 + int j)
            \<and> exercise m = exercises ! e
            \<and> load_percent_1rm m = load_percentages ! l
            \<and> rep_number m = 1 + int r
            \<and> mean_concentric_velocity m =
                max 0.1 (unclamped_velocity (exercises ! e) (load_percentages ! l)
                  (?g !! (292 * j + 7 + 95 * e + 19 * l)) (1 + int r))
            \<and> technique_rating m =
                (let x = unclamped_rating (load_percentages ! l)
                   (?g !! (292 * j + 7 + 95 * e + 19 * l + 1 + 6 * r + 3))
                 in if x < 1 then 1 else if 10 < x then 10 else x))"
    if "m \<in> set (vbt_measurements ?s)" for m
  proof -
    from that obtain j e l r
      where b: "j < nat n" "e < 3" "l < 5" "r < 3" and m: "m = row_at j e l r ?g c"
      unfolding generate_Inr(3) [OF gen] in_measurements_of by blast
    have bounds: "0.1 \<le> mean_concentric_velocity m"
      "1 \<le> technique_rating m" "technique_rating m \<le> 10"
      unfolding m clamped_fields_row_at by (simp_all add: Let_def)
    have fields: "measurement.participant_id m = CHR ''P'' # format_03d (1 + int j)"
      "exercise m = exercises ! e" "load_percent_1rm m = load_percentages ! l"
      "rep_number m = 1 + int r"
      unfolding m by (simp_all add: row_at_fields)
    show ?thesis
      using b bounds fields clamped_fields_row_at [of j e l r ?g c, folded m] by blast
  qed
  show ?thesis
    using gen len used rows by blast
qed

text \<open>
  One participant on a stream whose first individual factor is negative and whose first
  three rating variates are 5, -10 and 0: the first block sits on the velocity floor, with
  a rating on the upper clip, one on the lower clip and one unchanged; the next block has
  the unclamped velocity 0.824.
\<close>

theorem velocity_floor_and_rating_clip_witness:
  "\<exists>s. generate_sample_academic_dataset (\<lambda>k. clamp_stream) 1 (sconst 0) = Inr s
     \<and> length (vbt_measurements s) = 45
     \<and> map mean_concentric_velocity (take 4 (vbt_measurements s)) = [0.1, 0.1, 0.1, 0.824]
     \<and> map technique_rating (take 4 (vbt_measurements s)) = [10, 1, 8.5, 8.1]"
proof -
  have "clamp_stream !! k \<noteq> - 6" for k
    using snth_sset [of clamp_stream k] by (auto simp: clamp_stream_def)
  then have "\<forall>j<nat 1. \<forall>e<3. \<forall>l<5. \<forall>r<3.
      1.2 + 0.2 * clamp_stream !! (292 * j + 7 + 95 * e + 19 * l + 1 + 6 * r + 1) \<noteq> 0"
    unfolding duration_zero_iff by blast
  then obtain s where s: "generate_sample_academic_dataset (\<lambda>k. clamp_stream) 1 (sconst 0) = Inr s"
    and len: "length (vbt_measurements s) = 45 * nat 1"
    using velocity_floor_and_rating_clip [of 1 "\<lambda>k. clamp_stream" "sconst 0"] by auto
  have ms: "vbt_measurements s = measurements_of 1 clamp_stream (sconst 0)"
    using generate_Inr(3) [OF s] .
  have v: "map mean_concentric_velocity (take 4 (vbt_measurements s)) = [0.1, 0.1, 0.1, 0.824]"
    unfolding ms take_4_measurements_of [of 1, simplified]
    by (simp add: row_at_def row_of_def Let_def clamp_stream_def exercises_def
        load_percentages_def base_velocity_of_def eval_stream)
  have t: "map technique_rating (take 4 (vbt_measurements s)) = [10, 1, 8.5, 8.1]"
    unfolding ms take_4_measurements_of [of 1, simplified]
    by (simp add: row_at_def row_of_def Let_def clamp_stream_def exercises_def
        load_percentages_def clip_def eval_stream)
  have len': "length (vbt_measurements s) = 45"
    using len by simp
  show ?thesis
    by (rule exI [of _ s]) (simp only: s len' v t simp_thms)
qed

subsection \<open>Fatigue within a block\<close>

lemma fatigue_mono:
  fixes B :: real
  assumes "r1 \<le> r2" and "r2 < (3 :: nat)"
  shows "max 0.1 (B * (1.0 - real r2 * 0.03)) \<le> max 0.1 (B * (1.0 - real r1 * 0.03))"
proof (cases "0 \<le> B")
  case True
  have "1.0 - real r2 * 0.03 \<le> 1.0 - real r1 * 0.03"
    using assms by simp
  then have "B * (1.0 - real r2 * 0.03) \<le> B * (1.0 - real r1 * 0.03)"
    using True by (rule mult_left_mono)
  then show ?thesis
    by (rule max.mono [OF order_refl])
next
  case False
  have "0 \<le> 1.0 - real r2 * 0.03"
    using assms by simp
  then have "B * (1.0 - real r2 * 0.03) \<le> 0"
    using False by (simp add: mult_le_0_iff)
  then show ?thesis
    by simp
qed

text \<open>
  Claim C3. Two rows of a generated dataset with the same participant, exercise and load
  percentage: the one with the larger repetition number has the smaller or equal mean
  concentric velocity, whatever the stream of variates.
\<close>

theorem velocity_non_increasing_in_block:
  assumes "generate_sample_academic_dataset seed n c = Inr s"
    and "m1 \<in> set (vbt_measurements s)" and "m2 \<in> set (vbt_measurements s)"
    and "measurement.participant_id m1 = measurement.participant_id m2"
    and "exercise m1 = exercise m2"
    and "load_percent_1rm m1 = load_percent_1rm m2"
    and "rep_number m1 \<le> rep_number m2"
  shows "mean_concentric_velocity m2 \<le> mean_concentric_velocity m1"
proof -
  let ?g = "seed 42"
  from assms(2) obtain j1 e1 l1 r1
    where b1: "e1 < 3" "l1 < 5" "r1 < 3" and m1: "m1 = row_at j1 e1 l1 r1 ?g c"
    unfolding generate_Inr(3) [OF assms(1)] in_measurements_of by blast
  from assms(3) obtain j2 e2 l2 r2
    where b2: "e2 < 3" "l2 < 5" "r2 < 3" and m2: "m2 = row_at j2 e2 l2 r2 ?g c"
    unfolding generate_Inr(3) [OF assms(1)] in_measurements_of by blast
  have same: "j1 = j2 \<and> e1 = e2 \<and> l1 = l2"
    using assms(4-6) unfolding m1 m2 by (intro row_at_block_eq b1 b2)
  have "r1 \<le> r2"
    using assms(7) unfolding m1 m2 row_at_fields by simp
  then show ?thesis
    unfolding m1 m2 row_at_fields using same fatigue_mono [OF _ b2(3)] by simp
qed

text \<open>
  On the all-zero stream the first block has the repetitions 1, 2 and 3 with the velocities
  1.1, 1.067 and 1.034.
\<close>

theorem velocity_non_increasing_in_block_witness:
  "\<exists>s. generate_sample_academic_dataset (\<lambda>k. sconst 0) 1 (sconst 0) = Inr s
     \<and> map mean_concentric_velocity (take 3 (vbt_measurements s)) = [1.1, 1.067, 1.034]
     \<and> map rep_number (take 3 (vbt_measurements s)) = [1, 2, 3]
     \<and> mean_concentric_velocity (vbt_measurements s ! 2)
         \<le> mean_concentric_velocity (vbt_measurements s ! 0)"
proof -
  have "- 6 \<notin> sset (sconst (0 :: real))"
    by simp
  then obtain s where s: "generate_sample_academic_dataset (\<lambda>k. sconst 0) 1 (sconst 0) = Inr s"
    using generate_returns [of "\<lambda>k. sconst 0" 1] by auto
  let ?ms = "vbt_measurements s"
  have ms: "?ms = measurements_of 1 (sconst 0) (sconst 0)"
    using generate_Inr(3) [OF s] .
  have t3: "take 3 ?ms = [row_at 0 0 0 0 (sconst 0) (sconst 0), row_at 0 0 0 1 (sconst 0) (sconst 0),
      row_at 0 0 0 2 (sconst 0) (sconst 0)]"
    unfolding ms by (rule take_3_measurements_of) simp
  have len: "length ?ms = 45"
    using length_vbt_measurements [OF s] by simp
  have n0: "?ms ! 0 = row_at 0 0 0 0 (sconst 0) (sconst 0)"
    using arg_cong [OF t3, of "\<lambda>xs. xs ! 0"] by simp
  have n2: "?ms ! 2 = row_at 0 0 0 2 (sconst 0) (sconst 0)"
    using arg_cong [OF t3, of "\<lambda>xs. xs ! 2"] by simp
  have in0: "?ms ! 0 \<in> set ?ms" and in2: "?ms ! 2 \<in> set ?ms"
    using len by simp_all
  have mono: "mean_concentric_velocity (?ms ! 2) \<le> mean_concentric_velocity (?ms ! 0)"
    by (rule velocity_non_increasing_in_block [OF s in0 in2])
      (simp_all add: n0 n2 row_at_fields)
  have vs: "map mean_concentric_velocity (take 3 ?ms) = [1.1, 1.067, 1.034]"
    unfolding t3
    by (simp add: row_at_fields exercises_def load_percentages_def base_velocity_of_def
        eval_stream)
  have reps: "map rep_number (take 3 ?ms) = [1, 2, 3]"
    unfolding t3 by (simp add: row_at_fields)
  show ?thesis
    by (rule exI [of _ s]) (simp only: s mono vs reps simp_thms)
qed

subsection \<open>Referential integrity\<close>

text \<open>
  Claim C4. In a generated dataset the participant ids of the participants table are
  pairwise distinct, and the participant id of every measurement row is the id of exactly
  one row of the participants table.
\<close>

theorem referential_integrity:
  assumes "generate_sample_academic_dataset seed n c = Inr s"
  shows "distinct (map participant.participant_id (participants_data s))
     \<and> (\<forall>m \<in> set (vbt_measurements s).
          length (filter (\<lambda>p. participant.participant_id p = measurement.participant_id m)
            (participants_data s)) = 1)"
proof -
  let ?ids = "map participant.participant_id (participants_data s)"
  have ids: "?ids = map (\<lambda>i. CHR ''P'' # format_03d i) [1..n]"
    unfolding generate_Inr(2) [OF assms] by (rule ids_participants_of)
  have dist: "distinct ?ids"
    unfolding ids by (rule distinct_ids)
  have "length (filter (\<lambda>p. participant.participant_id p = measurement.participant_id m)
      (participants_data s)) = 1" if "m \<in> set (vbt_measurements s)" for m
  proof -
    from that obtain j e l r where j: "j < nat n" and m: "m = row_at j e l r (seed 42) c"
      unfolding generate_Inr(3) [OF assms] in_measurements_of by blast
    have "measurement.participant_id m = CHR ''P'' # format_03d (1 + int j)"
      unfolding m by (simp add: row_at_def row_of_def Let_def)
    moreover have "1 + int j \<in> set [1..n]"
      using j by simp
    ultimately have mem: "measurement.participant_id m \<in> set ?ids"
      unfolding ids by simp
    have "length (filter (\<lambda>p. participant.participant_id p = measurement.participant_id m)
        (participants_data s)) = length (filter (\<lambda>k. k = measurement.participant_id m) ?ids)"
      by (simp add: filter_map comp_def)
    also have "\<dots> = card ({k. k = measurement.participant_id m} \<inter> set ?ids)"
      using dist by (rule distinct_length_filter)
    also have "{k. k = measurement.participant_id m} \<inter> set ?ids = {measurement.participant_id m}"
      using mem by blast
    finally show ?thesis
      by simp
  qed
  then show ?thesis
    using dist by blast
qed

text \<open>
  Two participants: the ids are P001 and P002, and the first row belongs to P001 alone.
\<close>

theorem referential_integrity_witness:
  "\<exists>s. generate_sample_academic_dataset (\<lambda>k. sconst 0) 2 (sconst 0) = Inr s
     \<and> map participant.participant_id (participants_data s) = [''P001'', ''P002'']
     \<and> measurement.participant_id (hd (vbt_measurements s)) = ''P001''
     \<and> length (filter (\<lambda>p. participant.participant_id p =
           measurement.participant_id (hd (vbt_measurements s))) (participants_data s)) = 1"
proof -
  have "- 6 \<notin> sset (sconst (0 :: real))"
    by simp
  then obtain s where s: "generate_sample_academic_dataset (\<lambda>k. sconst 0) 2 (sconst 0) = Inr s"
    using generate_returns [of "\<lambda>k. sconst 0" 2] by auto
  let ?ms = "vbt_measurements s"
  have ms: "?ms = measurements_of 2 (sconst 0) (sconst 0)"
    using generate_Inr(3) [OF s] .
  have hd: "hd ?ms = row_at 0 0 0 0 (sconst 0) (sconst 0)"
    unfolding ms by (rule hd_measurements_of) simp
  have "hd ?ms \<in> set ?ms"
    unfolding hd unfolding ms by (rule row_at_0_in) simp
  then have one: "length (filter (\<lambda>p. participant.participant_id p =
           measurement.participant_id (hd ?ms)) (participants_data s)) = 1"
    using referential_integrity [OF s] by blast
  have "map participant.participant_id (participants_data s) =
      map (\<lambda>i. CHR ''P'' # format_03d i) [1..2]"
    unfolding generate_Inr(2) [OF s] by (rule ids_participants_of)
  also have "\<dots> = [''P001'', ''P002'']"
    by code_simp
  finally have ids: "map participant.participant_id (participants_data s) = [''P001'', ''P002'']" .
  have "CHR ''P'' # format_03d 1 = ''P001''"
    by code_simp
  then have first: "measurement.participant_id (hd ?ms) = ''P001''"
    unfolding hd by (simp add: row_at_fields)
  show ?thesis
    by (rule exI [of _ s]) (simp only: s ids first one [unfolded first] simp_thms)
qed

subsection \<open>One row for each combination\<close>

text \<open>
  Claim C5. A run that completes for \<open>n\<close> participants has \<open>45 * n\<close> measurement rows: read
  in order, their (participant, exercise, load percentage, repetition) keys are the
  combinations of the participants \<open>1..n\<close>, the exercises squat, bench and deadlift, the
  load percentages 50, 70, 85, 90 and 95 and the repetitions 1, 2 and 3, each once. The run
  completes unless a drawn duration is exactly zero (\<open>generate_closed\<close>,
  \<open>dataset_ok_iff\<close>).
\<close>

theorem one_row_per_combination:
  assumes "generate_sample_academic_dataset seed n c = Inr s"
  shows "map row_key (vbt_measurements s) = combinations n
     \<and> distinct (combinations n)
     \<and> length (vbt_measurements s) = 45 * nat n"
proof -
  have keys: "map row_key (vbt_measurements s) = combinations n"
    unfolding generate_Inr(3) [OF assms] by (rule keys_measurements_of)
  have "length (vbt_measurements s) = length (map row_key (vbt_measurements s))"
    by simp
  also have "\<dots> = 45 * nat n"
    unfolding keys by (rule length_combinations)
  finally show ?thesis
    using keys distinct_combinations by blast
qed

text \<open>
  One participant gives 45 rows, the first of them the squat block at 50 percent.
\<close>

theorem one_row_per_combination_witness:
  "\<exists>s. generate_sample_academic_dataset (\<lambda>k. sconst 0) 1 (sconst 0) = Inr s
     \<and> length (vbt_measurements s) = 45
     \<and> map row_key (vbt_measurements s) = combinations 1
     \<and> take 4 (combinations 1) =
         [(''P001'', ''squat'', 50, 1), (''P001'', ''squat'', 50, 2), (''P001'', ''squat'', 50, 3),
          (''P001'', ''squat'', 70, 1)]"
proof -
  have "- 6 \<notin> sset (sconst (0 :: real))"
    by simp
  then obtain s where s: "generate_sample_academic_dataset (\<lambda>k. sconst 0) 1 (sconst 0) = Inr s"
    using generate_returns [of "\<lambda>k. sconst 0" 1] by auto
  have "take 4 (combinations 1) =
         [(''P001'', ''squat'', 50, 1), (''P001'', ''squat'', 50, 2), (''P001'', ''squat'', 50, 3),
          (''P001'', ''squat'', 70, 1)]"
    by code_simp
  then show ?thesis
    using s one_row_per_combination [OF s] by auto
qed

subsection \<open>Load, force, power and rate of force development\<close>

text \<open>
  Claim C6. For every row of a generated dataset: the participants table has a row with the
  measurement's participant id, and for each such row the load is that participant's
  one-rep-max of the measurement's exercise times the load percentage over 100; the peak
  force is the load times 9.81; the mean power is the peak force times the mean concentric
  velocity; and the rate of force development is the peak force over 0.3 times the
  duration, which is not zero.
\<close>

theorem kinetic_relations:
  assumes "generate_sample_academic_dataset seed n c = Inr s"
    and "m \<in> set (vbt_measurements s)"
  shows "(\<exists>p \<in> set (participants_data s).
            participant.participant_id p = measurement.participant_id m)
     \<and> (\<forall>p \<in> set (participants_data s).
            participant.participant_id p = measurement.participant_id m \<longrightarrow>
            (\<exists>x. getitem p (exercise m @ ''_1rm'') = Inr x
               \<and> load_kg m = x * real_of_int (load_percent_1rm m) / 100))
     \<and> peak_force m = load_kg m * 9.81
     \<and> mean_power m = peak_force m * mean_concentric_velocity m
     \<and> duration_concentric m * 0.3 \<noteq> 0
     \<and> rate_of_force_development m = peak_force m / (duration_concentric m * 0.3)"
proof -
  let ?g = "seed 42"
  from assms(2) obtain j e l r
    where b: "j < nat n" "e < 3" "l < 5" "r < 3" and m: "m = row_at j e l r ?g c"
    unfolding generate_Inr(3) [OF assms(1)] in_measurements_of by blast
  let ?p = "participant_of (1 + int j) (sdrop (292 * j) ?g)"
  have ex: "exercises ! e \<in> set exercises"
    using b(2) by (simp add: length_exercises)
  have "?p \<in> set (participants_data s)"
    unfolding generate_Inr(2) [OF assms(1)] in_participants_of using b(1) by blast
  moreover have "participant.participant_id ?p = measurement.participant_id m"
    unfolding m by (simp add: row_at_fields)
  ultimately have some: "\<exists>p \<in> set (participants_data s).
      participant.participant_id p = measurement.participant_id m"
    by blast
  have own: "\<exists>x. getitem p (exercise m @ ''_1rm'') = Inr x
      \<and> load_kg m = x * real_of_int (load_percent_1rm m) / 100"
    if "p \<in> set (participants_data s)"
      and "participant.participant_id p = measurement.participant_id m" for p
  proof -
    from that(1) obtain j' where p: "p = participant_of (1 + int j') (sdrop (292 * j') ?g)"
      unfolding generate_Inr(2) [OF assms(1)] in_participants_of by blast
    have "1 + int j' = 1 + int j"
      using that(2) unfolding p m row_at_fields by (intro format_03d_inj) simp_all
    then have "p = ?p"
      unfolding p by simp
    then show ?thesis
      unfolding m by (simp add: row_at_def row_of_def Let_def getitem_exercise [OF ex])
  qed
  have "?g !! (292 * j + 7 + 95 * e + 19 * l + 1 + 6 * r + 1) \<noteq> - 6"
    using generate_Inr(1) [OF assms(1)] b unfolding dataset_ok_iff by blast
  then have dur: "duration_concentric m * 0.3 \<noteq> 0"
    unfolding m by (simp add: row_at_def row_of_def Let_def sdrop_snth)
  have rest: "peak_force m = load_kg m * 9.81"
    "mean_power m = peak_force m * mean_concentric_velocity m"
    "rate_of_force_development m = peak_force m / (duration_concentric m * 0.3)"
    unfolding m by (simp_all add: row_at_def row_of_def Let_def)
  show ?thesis
    using some own dur rest by blast
qed

text \<open>
  On the all-zero stream the squat one-rep-max is 91.875 and the rows of the first block
  carry half of it.
\<close>

theorem kinetic_relations_witness:
  "\<exists>s. generate_sample_academic_dataset (\<lambda>k. sconst 0) 1 (sconst 0) = Inr s
     \<and> map squat_1rm (participants_data s) = [91.875]
     \<and> map load_kg (take 3 (vbt_measurements s)) = [45.9375, 45.9375, 45.9375]
     \<and> peak_force (hd (vbt_measurements s)) = load_kg (hd (vbt_measurements s)) * 9.81
     \<and> mean_power (hd (vbt_measurements s)) =
         peak_force (hd (vbt_measurements s)) * mean_concentric_velocity (hd (vbt_measurements s))
     \<and> rate_of_force_development (hd (vbt_measurements s)) =
         peak_force (hd (vbt_measurements s)) / (duration_concentric (hd (vbt_measurements s)) * 0.3)"
proof -
  have "- 6 \<notin> sset (sconst (0 :: real))"
    by simp
  then obtain s where s: "generate_sample_academic_dataset (\<lambda>k. sconst 0) 1 (sconst 0) = Inr s"
    using generate_returns [of "\<lambda>k. sconst 0" 1] by auto
  let ?ms = "vbt_measurements s"
  have ms: "?ms = measurements_of 1 (sconst 0) (sconst 0)"
    using generate_Inr(3) [OF s] .
  have hd: "hd ?ms = row_at 0 0 0 0 (sconst 0) (sconst 0)"
    unfolding ms by (rule hd_measurements_of) simp
  have "hd ?ms \<in> set ?ms"
    unfolding hd unfolding ms by (rule row_at_0_in) simp
  note rel = kinetic_relations [OF s this]
  have ps: "map squat_1rm (participants_data s) = [91.875]"
    unfolding generate_Inr(2) [OF s]
    by (simp add: participants_of_def range_py_def upto.simps participant_of_def eval_stream)
  have loads: "map load_kg (take 3 ?ms) = [45.9375, 45.9375, 45.9375]"
    unfolding ms take_3_measurements_of [of 1, simplified]
    by (simp add: row_at_def row_of_def Let_def exercises_def load_percentages_def one_rm_def
        participant_of_def eval_stream)
  show ?thesis
    by (rule exI [of _ s]) (simp only: s ps loads rel simp_thms)
qed

subsection \<open>Training experience and one-rep-max\<close>

text \<open>
  Neither the body mass nor the Gaussian noise is bounded or clamped. On a stream whose
  body-mass variate is -7 the run completes with a participant of body mass -9 whose three
  one-rep-max values are negative, where claim C7 expects them positive. The training
  experience of that participant is 0.5.
\<close>

theorem one_rep_max_can_be_negative_counterexample:
  "\<exists>s. generate_sample_academic_dataset (\<lambda>k. negative_mass_stream) 1 (sconst 0) = Inr s
     \<and> map training_experience (participants_data s) = [0.5]
     \<and> map body_mass (participants_data s) = [- 9]
     \<and> map squat_1rm (participants_data s) = [- 11.025]
     \<and> map bench_1rm (participants_data s) = [- 9.135]
     \<and> map deadlift_1rm (participants_data s) = [- 12.87]"
proof -
  have "- 6 \<notin> sset negative_mass_stream"
    by (simp add: negative_mass_stream_def)
  then obtain s where
    s: "generate_sample_academic_dataset (\<lambda>k. negative_mass_stream) 1 (sconst 0) = Inr s"
    using generate_returns [of "\<lambda>k. negative_mass_stream" 1] by auto
  have ps: "participants_data s = [participant_of 1 negative_mass_stream]"
    unfolding generate_Inr(2) [OF s] by (simp add: participants_of_def range_py_def upto.simps)
  have vals: "map training_experience (participants_data s) = [0.5]"
    "map body_mass (participants_data s) = [- 9]"
    "map squat_1rm (participants_data s) = [- 11.025]"
    "map bench_1rm (participants_data s) = [- 9.135]"
    "map deadlift_1rm (participants_data s) = [- 12.87]"
    unfolding ps by (simp_all add: participant_of_def negative_mass_stream_def eval_stream)
  show ?thesis
    by (rule exI [of _ s]) (simp only: s vals simp_thms)
qed

text \<open>
  Claim C7, as the code has it. For the participant at index \<open>j\<close> of a generated dataset,
  when its standard exponential variate is non-negative (as the library guarantees): the
  training experience is at least 0.5, and each one-rep-max is the body mass times a
  coefficient linear in the training experience, plus the standard deviation (10, 8, 12)
  times the next variate of the stream. The noise is not bounded and the one-rep-max is not
  kept positive.
\<close>

theorem experience_positive_one_rep_max_linear:
  assumes "generate_sample_academic_dataset seed n c = Inr s"
    and "j < length (participants_data s)"
    and "0 \<le> seed 42 !! (292 * j + 3)"
  shows "0.5 \<le> training_experience (participants_data s ! j)
     \<and> squat_1rm (participants_data s ! j) =
         body_mass (participants_data s ! j)
           * (1.2 + 0.05 * training_experience (participants_data s ! j))
         + 10 * seed 42 !! (292 * j + 4)
     \<and> bench_1rm (participants_data s ! j) =
         body_mass (participants_data s ! j)
           * (1.0 + 0.03 * training_experience (participants_data s ! j))
         + 8 * seed 42 !! (292 * j + 5)
     \<and> deadlift_1rm (participants_data s ! j) =
         body_mass (participants_data s ! j)
           * (1.4 + 0.06 * training_experience (participants_data s ! j))
         + 12 * seed 42 !! (292 * j + 6)"
proof -
  have j: "j < nat n"
    using assms(2) unfolding generate_Inr(2) [OF assms(1)] length_participants_of .
  have p: "participants_data s ! j = participant_of (1 + int j) (sdrop (292 * j) (seed 42))"
    unfolding generate_Inr(2) [OF assms(1)] by (rule nth_participants_of [OF j])
  show ?thesis
    unfolding p using assms(3) by (simp add: participant_of_def sdrop_snth)
qed

text \<open>
  The participant of the stream above.
\<close>

theorem experience_positive_one_rep_max_linear_witness:
  "\<exists>s. generate_sample_academic_dataset (\<lambda>k. negative_mass_stream) 1 (sconst 0) = Inr s
     \<and> 0.5 \<le> training_experience (participants_data s ! 0)
     \<and> squat_1rm (participants_data s ! 0) =
         body_mass (participants_data s ! 0)
           * (1.2 + 0.05 * training_experience (participants_data s ! 0))
         + 10 * negative_mass_stream !! 4"
proof -
  have "- 6 \<notin> sset negative_mass_stream"
    by (simp add: negative_mass_stream_def)
  then obtain s where
    s: "generate_sample_academic_dataset (\<lambda>k. negative_mass_stream) 1 (sconst 0) = Inr s"
    using generate_returns [of "\<lambda>k. negative_mass_stream" 1] by auto
  have len: "0 < length (participants_data s)"
    unfolding generate_Inr(2) [OF s] length_participants_of by simp
  have e: "0 \<le> negative_mass_stream !! (292 * 0 + 3)"
    by (simp add: negative_mass_stream_def eval_stream)
  show ?thesis
    using experience_positive_one_rep_max_linear [OF s len e]
    by (intro exI [of _ s]) (simp add: s)
qed

subsection \<open>Non-positive participant counts\<close>

lemma non_positive_count_raises_unbound_local:
  assumes "n \<le> 0"
  shows "generate_sample_academic_dataset seed n c = Inl (UnboundLocalError ''exercises'')"
  using assms by (simp add: generate_closed)

text \<open>
  No statement of the function checks the participant count, and the seed is the constant 42
  rather than a parameter. For the count 0 the loop over
  \<^verbatim>\<open>range(1, n_participants + 1)\<close> runs to its end, with no iteration, and leaves the state as
  it was; the call fails only afterwards, with \<^verbatim>\<open>UnboundLocalError\<close>, when the metadata reads
  \<^verbatim>\<open>exercises\<close>, which the loop body alone assigns. The same happens for the count -3. Claim
  C8 expects a rejection of the parameter before generation begins.
\<close>

theorem non_positive_count_not_rejected_counterexample:
  "for_each (range_py 1 (0 + 1)) participant_body (initial_state (\<lambda>k. sconst 0) (sconst 0)) =
     Inr (initial_state (\<lambda>k. sconst 0) (sconst 0))
   \<and> generate_sample_academic_dataset (\<lambda>k. sconst 0) 0 (sconst 0) =
     Inl (UnboundLocalError ''exercises'')
   \<and> generate_sample_academic_dataset (\<lambda>k. sconst 0) (- 3) (sconst 0) =
     Inl (UnboundLocalError ''exercises'')"
  by (simp add: range_py_def generate_closed)

text \<open>
  Claim C8, as the code has it. No parameter is checked before generation begins. For every
  participant count \<open>n \<le> 0\<close> the participant loop has no iteration: it synthesises no
  participant and no measurement, draws no variate and reads no clock, and ends normally
  with the two tables empty. The call then fails instead of returning a dataset: the
  metadata reads \<^verbatim>\<open>exercises\<close>, which was never assigned, and that raises
  \<^verbatim>\<open>UnboundLocalError\<close>.
\<close>

theorem non_positive_count_synthesises_nothing:
  assumes "n \<le> 0"
  shows "for_each (range_py 1 (n + 1)) participant_body (initial_state seed c) =
       Inr (initial_state seed c)
     \<and> participants_data (initial_state seed c) = []
     \<and> vbt_measurements (initial_state seed c) = []
     \<and> rng (initial_state seed c) = seed 42
     \<and> clock (initial_state seed c) = c
     \<and> generate_sample_academic_dataset seed n c = Inl (UnboundLocalError ''exercises'')"
  using assms
  by (simp add: participant_loop initial_state_def non_positive_count_raises_unbound_local)

text \<open>
  The count -1.
\<close>

theorem non_positive_count_synthesises_nothing_witness:
  "for_each (range_py 1 (- 1 + 1)) participant_body (initial_state (\<lambda>k. sconst 1) (sconst 7)) =
       Inr (initial_state (\<lambda>k. sconst 1) (sconst 7))
     \<and> participants_data (initial_state (\<lambda>k. sconst 1) (sconst 7)) = []
     \<and> vbt_measurements (initial_state (\<lambda>k. sconst 1) (sconst 7)) = []
     \<and> rng (initial_state (\<lambda>k. sconst 1) (sconst 7)) = sconst 1
     \<and> generate_sample_academic_dataset (\<lambda>k. sconst 1) (- 1) (sconst 7) =
         Inl (UnboundLocalError ''exercises'')"
  using non_positive_count_synthesises_nothing [of "- 1" "\<lambda>k. sconst 1" "sconst 7"] by simp

subsection \<open>Quantities outside physical bounds\<close>

text \<open>
  The loop body has no assertion. On a stream whose first duration variate is -7 and whose
  first range variate is -9, the run completes and its first row has the duration -0.2 and
  the range of motion -0.07, where claim C9 expects an abort.
\<close>

theorem no_validity_assertion_counterexample:
  "\<exists>s. generate_sample_academic_dataset (\<lambda>k. negative_duration_stream) 1 (sconst 0) = Inr s
     \<and> duration_concentric (hd (vbt_measurements s)) = - 0.2
     \<and> range_of_motion (hd (vbt_measurements s)) = - 0.07"
proof -
  have "- 6 \<notin> sset negative_duration_stream"
    by (simp add: negative_duration_stream_def)
  then obtain s where
    s: "generate_sample_academic_dataset (\<lambda>k. negative_duration_stream) 1 (sconst 0) = Inr s"
    using generate_returns [of "\<lambda>k. negative_duration_stream" 1] by auto
  have hd: "hd (vbt_measurements s) = row_at 0 0 0 0 negative_duration_stream (sconst 0)"
    unfolding generate_Inr(3) [OF s] by (rule hd_measurements_of) simp
  have d: "duration_concentric (hd (vbt_measurements s)) = - 0.2"
    unfolding hd
    by (simp add: row_at_def row_of_def Let_def negative_duration_stream_def eval_stream)
  have r: "range_of_motion (hd (vbt_measurements s)) = - 0.07"
    unfolding hd
    by (simp add: row_at_def row_of_def Let_def negative_duration_stream_def eval_stream)
  show ?thesis
    by (rule exI [of _ s]) (simp only: s d r simp_thms)
qed

text \<open>
  Claim C9, as the code has it. The function asserts no physical bound. For a positive
  participant count a run completes, with one row for every participant and 45 measurement
  rows for each, every row carrying its duration \<open>1.2 + 0.2 * z\<close> and its range of motion
  \<open>0.65 + 0.08 * z'\<close> as drawn, whatever their signs; or it raises \<^verbatim>\<open>ZeroDivisionError\<close> from
  the division by \<open>duration * 0.3\<close>, and then some variate \<open>z\<close> of the stream has
  \<open>1.2 + 0.2 * z = 0\<close>.
\<close>

theorem out_of_bounds_values_are_emitted:
  assumes "0 < n"
  shows "(\<exists>s. generate_sample_academic_dataset seed n c = Inr s
        \<and> length (participants_data s) = nat n \<and> length (vbt_measurements s) = 45 * nat n
        \<and> (\<forall>m \<in> set (vbt_measurements s). \<exists>k.
              duration_concentric m = 1.2 + 0.2 * seed 42 !! k
              \<and> range_of_motion m = 0.65 + 0.08 * seed 42 !! Suc k))
   \<or> (generate_sample_academic_dataset seed n c = Inl ZeroDivisionError
        \<and> (\<exists>k. 1.2 + 0.2 * seed 42 !! k = 0))"
proof (cases "dataset_ok n (seed 42)")
  case True
  then obtain s where s: "generate_sample_academic_dataset seed n c = Inr s"
    using assms by (simp add: generate_closed)
  have "length (participants_data s) = nat n"
    unfolding generate_Inr(2) [OF s] by (rule length_participants_of)
  moreover have "\<exists>k. duration_concentric m = 1.2 + 0.2 * seed 42 !! k
      \<and> range_of_motion m = 0.65 + 0.08 * seed 42 !! Suc k"
    if "m \<in> set (vbt_measurements s)" for m
  proof -
    from that obtain j e l r where m: "m = row_at j e l r (seed 42) c"
      unfolding generate_Inr(3) [OF s] in_measurements_of by blast
    have "duration_concentric m =
        1.2 + 0.2 * seed 42 !! (292 * j + 7 + 95 * e + 19 * l + 1 + 6 * r + 1)"
      "range_of_motion m =
        0.65 + 0.08 * seed 42 !! Suc (292 * j + 7 + 95 * e + 19 * l + 1 + 6 * r + 1)"
      unfolding m by (simp_all add: row_at_def row_of_def Let_def sdrop_snth eval_nat_numeral)
    then show ?thesis
      by blast
  qed
  ultimately show ?thesis
    using s length_vbt_measurements [OF s] by blast
next
  case False
  then obtain k where "seed 42 !! k = - 6"
    unfolding dataset_ok_iff by blast
  then have "1.2 + 0.2 * seed 42 !! k = 0"
    by simp
  then show ?thesis
    using False assms by (auto simp: generate_closed)
qed

text \<open>
  The stream above, with its negative duration and range of motion: the run completes.
\<close>

theorem out_of_bounds_values_are_emitted_witness:
  "\<exists>s. generate_sample_academic_dataset (\<lambda>k. negative_duration_stream) 1 (sconst 0) = Inr s
     \<and> length (participants_data s) = 1 \<and> length (vbt_measurements s) = 45"
proof -
  have "negative_duration_stream !! k \<noteq> - 6" for k
    using snth_sset [of negative_duration_stream k] by (auto simp: negative_duration_stream_def)
  then have "\<not> (\<exists>k. 1.2 + 0.2 * negative_duration_stream !! k = 0)"
    unfolding duration_zero_iff by blast
  then show ?thesis
    using out_of_bounds_values_are_emitted [of 1 "\<lambda>k. negative_duration_stream" "sconst 0"]
    by auto
qed

subsection \<open>Peak velocity against mean velocity\<close>

text \<open>
  Claim C10. The multiplier \<open>1.25 + 0.05 * z\<close> of the peak velocity is not guarded: on a
  stream whose first multiplier variate is -8 the run completes, and its first row has the
  mean concentric velocity 1.1 and the peak velocity 0.935, below the mean.
\<close>

theorem peak_velocity_may_be_below_mean:
  "\<exists>s. generate_sample_academic_dataset (\<lambda>k. slow_peak_stream) 1 (sconst 0) = Inr s
     \<and> hd (vbt_measurements s) \<in> set (vbt_measurements s)
     \<and> mean_concentric_velocity (hd (vbt_measurements s)) = 1.1
     \<and> peak_velocity (hd (vbt_measurements s)) = 0.935
     \<and> peak_velocity (hd (vbt_measurements s)) < mean_concentric_velocity (hd (vbt_measurements s))"
proof -
  have "- 6 \<notin> sset slow_peak_stream"
    by (simp add: slow_peak_stream_def)
  then obtain s where
    s: "generate_sample_academic_dataset (\<lambda>k. slow_peak_stream) 1 (sconst 0) = Inr s"
    using generate_returns [of "\<lambda>k. slow_peak_stream" 1] by auto
  have hd: "hd (vbt_measurements s) = row_at 0 0 0 0 slow_peak_stream (sconst 0)"
    unfolding generate_Inr(3) [OF s] by (rule hd_measurements_of) simp
  have mem: "hd (vbt_measurements s) \<in> set (vbt_measurements s)"
    unfolding hd unfolding generate_Inr(3) [OF s] by (rule row_at_0_in) simp
  have v: "mean_concentric_velocity (hd (vbt_measurements s)) = 1.1"
    unfolding hd
    by (simp add: row_at_def row_of_def Let_def slow_peak_stream_def exercises_def
        load_percentages_def base_velocity_of_def eval_stream)
  have pk: "peak_velocity (hd (vbt_measurements s)) = 0.935"
    unfolding hd
    by (simp add: row_at_def row_of_def Let_def slow_peak_stream_def exercises_def
        load_percentages_def base_velocity_of_def eval_stream)
  have lt: "peak_velocity (hd (vbt_measurements s)) < mean_concentric_velocity (hd (vbt_measurements s))"
    unfolding v pk by simp
  show ?thesis
    by (rule exI [of _ s]) (simp only: s mem v pk lt [unfolded v pk] simp_thms)
qed

end
